theory Spec2Isabelle
  imports Complex_Main
begin

section \<open>The cruise control system object\<close>

text \<open>
  The class \<open>CruiseControlSystem\<close> of \<open>cruise_control_simulation.py\<close> keeps its
  parameters and its state as attributes of one object; the record below has one field
  per numeric attribute, under the attribute's name. The four transfer-function objects
  built by \<open>create_transfer_functions\<close> are never read by the simulation and are left out.

  The numbers of the program are IEEE 754 doubles. Two embeddings are given. The first,
  in the sections up to the simulation loop, computes on real numbers: it is exact where
  the program rounds, and it is used for the properties that rounding does not touch (what
  one call of a method computes, determinism, the sum of the disturbances). A division
  whose divisor is zero has no real value: Python raises \<open>ZeroDivisionError\<close> on float
  operands and numpy continues with \<open>inf\<close> or \<open>nan\<close> on \<open>float64\<close> operands. Both are the
  error value \<open>ZeroDivisionError\<close> in the first embedding, paired with the object as it is
  when the division is reached, so a result \<open>Inr\<close> there always stands for a run on finite
  numbers. The second embedding, from the section on double-precision arithmetic on,
  computes on doubles, with rounding, overflow, infinities and NaN, and is used for the
  properties that depend on them: the bounds of the command, the rollback of the
  integral, the number of records and the runs on degenerate parameters.
\<close>

datatype failure = ZeroDivisionError

record cruise =
  m :: real
  b :: real
  Kv :: real
  tau_engine :: real
  v_desired :: real
  Kp :: real
  Ki :: real
  Kd :: real
  throttle_max :: real
  throttle_min :: real
  dt :: real
  T_sim :: real
  v_current :: real
  throttle :: real
  error_integral :: real
  error_prev :: real
  engine_state :: real
  vehicle_state :: real

text \<open>\<open>reset_states\<close> (lines 59-70): the six state attributes are set to zero.\<close>

definition reset_states :: "cruise \<Rightarrow> cruise" where
  "reset_states c =
     c\<lparr>v_current := 0, throttle := 0, error_integral := 0, error_prev := 0,
       engine_state := 0, vehicle_state := 0\<rparr>"

text \<open>\<open>__init__\<close> (lines 15-43): the default parameters, then \<open>reset_states\<close>.\<close>

definition cruise_init :: cruise where
  "cruise_init =
     reset_states
       \<lparr>m = 1000, b = 50, Kv = 500, tau_engine = 1 / 2, v_desired = 29,
        Kp = 800, Ki = 40, Kd = 40, throttle_max = 1, throttle_min = 0,
        dt = 1 / 100, T_sim = 100,
        v_current = 0, throttle = 0, error_integral = 0, error_prev = 0,
        engine_state = 0, vehicle_state = 0\<rparr>"

section \<open>The PID controller\<close>

text \<open>\<open>np.clip(a, a_min, a_max)\<close> is \<open>minimum(maximum(a, a_min), a_max)\<close>.\<close>

definition np_clip :: "real \<Rightarrow> real \<Rightarrow> real \<Rightarrow> real" where
  "np_clip a a_min a_max = min (max a a_min) a_max"

text \<open>
  The three terms and their sum (lines 75-86), as functions of the object before the call
  and of the error: the integral term reads the accumulator after the integration step of
  line 78, the derivative term reads \<open>error_prev\<close> before line 83 overwrites it.
\<close>

definition p_term :: "cruise \<Rightarrow> real \<Rightarrow> real" where
  "p_term c e = Kp c * e"

definition i_term :: "cruise \<Rightarrow> real \<Rightarrow> real" where
  "i_term c e = Ki c * (error_integral c + e * dt c)"

definition d_term :: "cruise \<Rightarrow> real \<Rightarrow> real" where
  "d_term c e = Kd c * (e - error_prev c) / dt c"

definition raw_signal :: "cruise \<Rightarrow> real \<Rightarrow> real" where
  "raw_signal c e = p_term c e + i_term c e + d_term c e"

text \<open>
  \<open>pid_controller\<close> (lines 72-95) returns the command and the mutated object. The
  saturation test of line 92 reads the clipped signal, not the raw one.
\<close>

definition pid_controller :: "cruise \<Rightarrow> real \<Rightarrow> (failure \<times> cruise) + (real \<times> cruise)" where
  "pid_controller c e =
     (let c1 = c\<lparr>error_integral := error_integral c + e * dt c\<rparr>
      in if dt c1 = 0 then Inl (ZeroDivisionError, c1)
      else
        let c2 = c1\<lparr>error_prev := e\<rparr>;
            control_signal = np_clip (raw_signal c e) (throttle_min c2) (throttle_max c2);
            c3 = (if control_signal \<ge> throttle_max c2 \<or> control_signal \<le> throttle_min c2
                  then c2\<lparr>error_integral := error_integral c2 - e * dt c2\<rparr>
                  else c2)
        in Inr (control_signal, c3))"

section \<open>Actuator and plant\<close>

text \<open>\<open>engine_model\<close> (lines 97-102): one explicit Euler step of the first-order lag.\<close>

definition engine_model :: "cruise \<Rightarrow> real \<Rightarrow> (failure \<times> cruise) + (real \<times> cruise)" where
  "engine_model c throttle_input =
     (if tau_engine c = 0 then Inl (ZeroDivisionError, c)
      else
        let force_command = Kv c * throttle_input;
            c1 = c\<lparr>engine_state :=
                    engine_state c + (force_command - engine_state c) * dt c / tau_engine c\<rparr>
        in Inr (engine_state c1, c1))"

text \<open>\<open>vehicle_model\<close> (lines 104-110): one explicit Euler step of mass with drag.\<close>

definition vehicle_model :: "cruise \<Rightarrow> real \<Rightarrow> real \<Rightarrow> (failure \<times> cruise) + (real \<times> cruise)" where
  "vehicle_model c engine_force disturbance_force =
     (if m c = 0 then Inl (ZeroDivisionError, c)
      else
        let total_force = engine_force - b c * v_current c + disturbance_force;
            acceleration = total_force / m c;
            c1 = c\<lparr>v_current := v_current c + acceleration * dt c\<rparr>
        in Inr (v_current c1, c1))"

section \<open>The simulation loop\<close>

text \<open>
  The argument \<open>reference_speed\<close> is a number or a callable (lines 133-136);
  \<open>disturbances\<close> is \<open>None\<close> or a list of callables.
\<close>

datatype reference = Constant real | Callable "real \<Rightarrow> real"

definition v_ref_at :: "reference \<Rightarrow> real \<Rightarrow> real" where
  "v_ref_at reference_speed t =
     (case reference_speed of Callable f \<Rightarrow> f t | Constant k \<Rightarrow> k)"

text \<open>
  Lines 148-151: the accumulator starts at 0 and adds each function's value in list
  order; \<open>if disturbances:\<close> skips the loop for \<open>None\<close> and for the empty list.
\<close>

definition dist_force_at :: "(real \<Rightarrow> real) list option \<Rightarrow> real \<Rightarrow> real" where
  "dist_force_at disturbances t =
     (case disturbances of
        None \<Rightarrow> 0
      | Some fs \<Rightarrow>
          if fs = [] then 0
          else foldl (\<lambda>dist_force dist_func. dist_force + dist_func t) 0 fs)"

text \<open>
  \<open>np.arange(0, stop, step)\<close>: \<open>ceil(stop / step)\<close> values \<open>i * step\<close>, none when that
  count is not positive; a zero step raises.
\<close>

definition np_arange :: "real \<Rightarrow> real \<Rightarrow> failure + real list" where
  "np_arange stop step =
     (if step = 0 then Inl ZeroDivisionError
      else Inr (map (\<lambda>i. real i * step) [0..<nat \<lceil>stop / step\<rceil>]))"

text \<open>The five logging arrays of lines 122-126, and the values one step writes.\<close>

record logs =
  speed_log :: "real list"
  throttle_log :: "real list"
  error_log :: "real list"
  force_log :: "real list"
  reference_log :: "real list"

record row =
  row_speed :: real
  row_throttle :: real
  row_error :: real
  row_force :: real
  row_reference :: real

definition zero_logs :: "nat \<Rightarrow> logs" where
  "zero_logs n_steps =
     \<lparr>speed_log = replicate n_steps 0, throttle_log = replicate n_steps 0,
      error_log = replicate n_steps 0, force_log = replicate n_steps 0,
      reference_log = replicate n_steps 0\<rparr>"

text \<open>Lines 157-161: the assignments at index \<open>i\<close>, always within the arrays.\<close>

definition write_row :: "logs \<Rightarrow> nat \<Rightarrow> row \<Rightarrow> logs" where
  "write_row l i r =
     \<lparr>speed_log = (speed_log l)[i := row_speed r],
      throttle_log = (throttle_log l)[i := row_throttle r],
      error_log = (error_log l)[i := row_error r],
      force_log = (force_log l)[i := row_force r],
      reference_log = (reference_log l)[i := row_reference r]\<rparr>"

text \<open>The body of the loop (lines 132-154) at time \<open>t\<close>.\<close>

definition sim_step ::
  "cruise \<Rightarrow> reference \<Rightarrow> (real \<Rightarrow> real) list option \<Rightarrow> real
     \<Rightarrow> (failure \<times> cruise) + (row \<times> cruise)" where
  "sim_step c reference_speed disturbances t =
     (let v_ref = v_ref_at reference_speed t;
          e = v_ref - v_current c
      in case pid_controller c e of
           Inl x \<Rightarrow> Inl x
         | Inr (throttle_cmd, c1) \<Rightarrow>
             (case engine_model c1 throttle_cmd of
                Inl x \<Rightarrow> Inl x
              | Inr (engine_force, c2) \<Rightarrow>
                  (let dist_force = dist_force_at disturbances t
                   in case vehicle_model c2 engine_force dist_force of
                        Inl x \<Rightarrow> Inl x
                      | Inr (speed, c3) \<Rightarrow>
                          Inr (\<lparr>row_speed = speed, row_throttle = throttle_cmd,
                                row_error = e, row_force = engine_force,
                                row_reference = v_ref\<rparr>, c3))))"

text \<open>The loop \<open>for i, t in enumerate(time)\<close> (line 131).\<close>

fun sim_loop ::
  "cruise \<Rightarrow> reference \<Rightarrow> (real \<Rightarrow> real) list option \<Rightarrow> logs \<Rightarrow> (nat \<times> real) list
     \<Rightarrow> (failure \<times> cruise) + (logs \<times> cruise)" where
  "sim_loop c reference_speed disturbances l [] = Inr (l, c)"
| "sim_loop c reference_speed disturbances l ((i, t) # its) =
     (case sim_step c reference_speed disturbances t of
        Inl x \<Rightarrow> Inl x
      | Inr (r, c') \<Rightarrow> sim_loop c' reference_speed disturbances (write_row l i r) its)"

text \<open>
  \<open>simulate\<close> (lines 112-170) returns the dictionary of the time vector and the five
  logs (its keys \<open>time\<close>, \<open>speed\<close>, \<open>throttle\<close>, \<open>error\<close>, \<open>force\<close>, \<open>reference\<close> are
  the fields below), and the mutated object. The time vector is built at line 118, before
  the state is reset at line 129.
\<close>

record results =
  res_time :: "real list"
  res_speed :: "real list"
  res_throttle :: "real list"
  res_error :: "real list"
  res_force :: "real list"
  res_reference :: "real list"

definition simulate ::
  "cruise \<Rightarrow> reference option \<Rightarrow> (real \<Rightarrow> real) list option
     \<Rightarrow> (failure \<times> cruise) + (results \<times> cruise)" where
  "simulate c reference_speed disturbances =
     (let reference_speed' =
            (case reference_speed of None \<Rightarrow> Constant (v_desired c) | Some r \<Rightarrow> r)
      in case np_arange (T_sim c) (dt c) of
           Inl x \<Rightarrow> Inl (x, c)
         | Inr time_vec \<Rightarrow>
             (let n_steps = length time_vec;
                  l0 = zero_logs n_steps;
                  c0 = reset_states c
              in case sim_loop c0 reference_speed' disturbances l0
                        (zip [0..<n_steps] time_vec) of
                   Inl x \<Rightarrow> Inl x
                 | Inr (l, c') \<Rightarrow>
                     Inr (\<lparr>res_time = time_vec, res_speed = speed_log l,
                           res_throttle = throttle_log l, res_error = error_log l,
                           res_force = force_log l, res_reference = reference_log l\<rparr>, c')))"

section \<open>Notions used by the properties\<close>

text \<open>
  Two objects with the same parameters: the twelve attributes that \<open>__init__\<close> sets and
  that no method of the simulation assigns. The six state attributes may differ.
\<close>

definition same_params :: "cruise \<Rightarrow> cruise \<Rightarrow> bool" where
  "same_params c c' \<longleftrightarrow>
     m c' = m c \<and> b c' = b c \<and> Kv c' = Kv c \<and> tau_engine c' = tau_engine c \<and>
     v_desired c' = v_desired c \<and> Kp c' = Kp c \<and> Ki c' = Ki c \<and> Kd c' = Kd c \<and>
     throttle_max c' = throttle_max c \<and> throttle_min c' = throttle_min c \<and>
     dt c' = dt c \<and> T_sim c' = T_sim c"

text \<open>
  Names for three values that \<open>simulate\<close> computes before its loop: the number of steps
  \<open>n_steps\<close>, the time vector, and the reference after the default of lines 114-115.
\<close>

definition n_grid :: "cruise \<Rightarrow> nat" where
  "n_grid c = nat \<lceil>T_sim c / dt c\<rceil>"

definition grid :: "cruise \<Rightarrow> real list" where
  "grid c = map (\<lambda>i. real i * dt c) [0..<n_grid c]"

definition ref_of :: "cruise \<Rightarrow> reference option \<Rightarrow> reference" where
  "ref_of c reference_speed =
     (case reference_speed of None \<Rightarrow> Constant (v_desired c) | Some r \<Rightarrow> r)"

text \<open>
  Three objects as a caller sets them up, by assigning attributes after \<open>__init__\<close> the
  way \<open>custom_cruise_tests.py\<close> does: a run of two steps, a run whose duration is not a
  multiple of the time step, and a run with the throttle limits exchanged.
\<close>

definition cruise_small :: cruise where
  "cruise_small = cruise_init\<lparr>dt := 1 / 2, T_sim := 1\<rparr>"

definition cruise_uneven :: cruise where
  "cruise_uneven = cruise_init\<lparr>dt := 3 / 10, T_sim := 1\<rparr>"

definition cruise_inverted :: cruise where
  "cruise_inverted = cruise_small\<lparr>throttle_min := 1, throttle_max := 0\<rparr>"


section \<open>Double-precision arithmetic\<close>

text \<open>
  The numbers the program computes are IEEE 754 binary64 values (Python \<open>float\<close>, numpy
  \<open>float64\<close>): finite doubles, the two infinities and NaN. \<open>Fin x\<close> is the finite double of
  value \<open>x\<close>; the two zeros are both \<open>Fin 0\<close>, which no operation of the simulation tells
  apart, since every divisor in it is a parameter of the object.
\<close>

datatype f64 = Fin real | PInf | NInf | NaN

definition pow2 :: "int \<Rightarrow> real" where
  "pow2 e = (if 0 \<le> e then 2 ^ nat e else 1 / 2 ^ nat (- e))"

text \<open>
  \<open>expo_search n lo a\<close> is the largest \<open>e\<close> among \<open>lo, ..., lo + 2 ^ n - 1\<close> with
  \<open>2 ^ e \<le> a\<close>, and \<open>lo\<close> when there is none. \<open>expo x\<close> is the binary exponent of \<open>x\<close>,
  held at \<open>- 1022\<close> in the subnormal range.
\<close>

fun expo_search :: "nat \<Rightarrow> int \<Rightarrow> real \<Rightarrow> int" where
  "expo_search 0 lo a = lo"
| "expo_search (Suc n) lo a =
     (if pow2 (lo + 2 ^ n) \<le> a then expo_search n (lo + 2 ^ n) a else expo_search n lo a)"

definition expo :: "real \<Rightarrow> int" where
  "expo x = expo_search 11 (- 1022) \<bar>x\<bar>"

text \<open>Rounding to the nearest integer, ties to the even one.\<close>

definition round_even :: "real \<Rightarrow> int" where
  "round_even y =
     (let f = \<lfloor>y\<rfloor>
      in if y - of_int f < 1 / 2 then f
         else if 1 / 2 < y - of_int f then f + 1
         else if even f then f else f + 1)"

text \<open>
  \<open>fl x\<close> is the double that an operation with exact result \<open>x\<close> returns: \<open>x\<close> rounded to
  53 significant bits, to nearest with ties to even, and an infinity from
  \<open>2 ^ 1024 - 2 ^ 970\<close> on, the midpoint between the largest double and \<open>2 ^ 1024\<close>.
\<close>

definition fl :: "real \<Rightarrow> f64" where
  "fl x =
     (if pow2 1024 - pow2 970 \<le> x then PInf
      else if x \<le> - (pow2 1024 - pow2 970) then NInf
      else Fin (of_int (round_even (x / pow2 (expo x - 52))) * pow2 (expo x - 52)))"

definition is_neg :: "f64 \<Rightarrow> bool" where
  "is_neg x = (case x of Fin u \<Rightarrow> u < 0 | NInf \<Rightarrow> True | _ \<Rightarrow> False)"

definition inf_of :: "bool \<Rightarrow> f64" where
  "inf_of neg = (if neg then NInf else PInf)"

definition fneg :: "f64 \<Rightarrow> f64" where
  "fneg x = (case x of Fin u \<Rightarrow> Fin (- u) | PInf \<Rightarrow> NInf | NInf \<Rightarrow> PInf | NaN \<Rightarrow> NaN)"

definition fadd :: "f64 \<Rightarrow> f64 \<Rightarrow> f64" where
  "fadd x y =
     (case (x, y) of
        (NaN, _) \<Rightarrow> NaN
      | (_, NaN) \<Rightarrow> NaN
      | (Fin u, Fin v) \<Rightarrow> fl (u + v)
      | (Fin u, z) \<Rightarrow> z
      | (z, Fin v) \<Rightarrow> z
      | (PInf, PInf) \<Rightarrow> PInf
      | (NInf, NInf) \<Rightarrow> NInf
      | _ \<Rightarrow> NaN)"

definition fsub :: "f64 \<Rightarrow> f64 \<Rightarrow> f64" where
  "fsub x y = fadd x (fneg y)"

definition fmul :: "f64 \<Rightarrow> f64 \<Rightarrow> f64" where
  "fmul x y =
     (case (x, y) of
        (NaN, _) \<Rightarrow> NaN
      | (_, NaN) \<Rightarrow> NaN
      | (Fin u, Fin v) \<Rightarrow> fl (u * v)
      | _ \<Rightarrow> if x = Fin 0 \<or> y = Fin 0 then NaN else inf_of (is_neg x \<noteq> is_neg y))"

text \<open>
  Division as numpy does it on \<open>float64\<close> operands: a zero divisor gives an infinity, or
  NaN for \<open>0 / 0\<close>, with a warning and no exception. The zero divisors of the simulation
  are parameters set to \<open>0\<close> or \<open>0.0\<close>, positive zeros.
\<close>

definition fdiv :: "f64 \<Rightarrow> f64 \<Rightarrow> f64" where
  "fdiv x y =
     (case (x, y) of
        (NaN, _) \<Rightarrow> NaN
      | (_, NaN) \<Rightarrow> NaN
      | (Fin u, Fin v) \<Rightarrow>
          if v = 0 then (if u = 0 then NaN else inf_of (u < 0)) else fl (u / v)
      | (Fin u, _) \<Rightarrow> Fin 0
      | (_, Fin v) \<Rightarrow> inf_of (is_neg x \<noteq> (v < 0))
      | _ \<Rightarrow> NaN)"

text \<open>Comparisons: every comparison with NaN is false.\<close>

definition fle :: "f64 \<Rightarrow> f64 \<Rightarrow> bool" where
  "fle x y =
     (case (x, y) of
        (NaN, _) \<Rightarrow> False
      | (_, NaN) \<Rightarrow> False
      | (Fin u, Fin v) \<Rightarrow> u \<le> v
      | (NInf, _) \<Rightarrow> True
      | (_, PInf) \<Rightarrow> True
      | _ \<Rightarrow> False)"

definition fge :: "f64 \<Rightarrow> f64 \<Rightarrow> bool" where
  "fge x y = fle y x"

text \<open>
  \<open>np.clip\<close> on a \<open>float64\<close>: a NaN argument is returned as it is, any other argument is
  \<open>min(max(a, a_min), a_max)\<close>. The two limits are finite.
\<close>

definition np_clip_f64 :: "f64 \<Rightarrow> real \<Rightarrow> real \<Rightarrow> f64" where
  "np_clip_f64 a a_min a_max =
     (if a = NaN then NaN
      else let a1 = (if fle a (Fin a_min) then Fin a_min else a)
           in if fle a1 (Fin a_max) then a1 else Fin a_max)"

section \<open>The simulation on doubles\<close>

text \<open>
  The same methods, computing on doubles. The twelve parameters are read from a \<open>cruise\<close>
  record \<open>c\<close>, finite doubles that no method assigns; the six state attributes are the
  record below. Every operation is written in the order Python evaluates it.
\<close>

record state_f64 =
  v_current_f :: f64
  throttle_f :: f64
  error_integral_f :: f64
  error_prev_f :: f64
  engine_state_f :: f64
  vehicle_state_f :: f64

datatype raised = ZeroDivision_Error | Overflow_Error

definition reset_states_f64 :: "state_f64 \<Rightarrow> state_f64" where
  "reset_states_f64 s =
     s\<lparr>v_current_f := Fin 0, throttle_f := Fin 0, error_integral_f := Fin 0,
       error_prev_f := Fin 0, engine_state_f := Fin 0, vehicle_state_f := Fin 0\<rparr>"

text \<open>
  \<open>pid_controller\<close> (lines 72-95). The raw signal is \<open>(p_term + i_term) + d_term\<close>. The
  division of line 82 is by \<open>dt\<close>; for \<open>dt = 0\<close> Python raises \<open>ZeroDivisionError\<close> on
  \<open>float\<close> operands, after line 78 has run, and \<open>simulate\<close> never gets there with
  \<open>dt = 0\<close>.
\<close>

definition raw_signal_f64 :: "cruise \<Rightarrow> state_f64 \<Rightarrow> f64 \<Rightarrow> f64" where
  "raw_signal_f64 c s e =
     (let p_term = fmul (Fin (Kp c)) e;
          error_integral' = fadd (error_integral_f s) (fmul e (Fin (dt c)));
          i_term = fmul (Fin (Ki c)) error_integral';
          d_term = fdiv (fmul (Fin (Kd c)) (fsub e (error_prev_f s))) (Fin (dt c))
      in fadd (fadd p_term i_term) d_term)"

definition pid_controller_f64 ::
  "cruise \<Rightarrow> state_f64 \<Rightarrow> f64 \<Rightarrow> (raised \<times> state_f64) + (f64 \<times> state_f64)" where
  "pid_controller_f64 c s e =
     (let s1 = s\<lparr>error_integral_f := fadd (error_integral_f s) (fmul e (Fin (dt c)))\<rparr>
      in if dt c = 0 then Inl (ZeroDivision_Error, s1)
      else
        let s2 = s1\<lparr>error_prev_f := e\<rparr>;
            control_signal =
              np_clip_f64 (raw_signal_f64 c s e) (throttle_min c) (throttle_max c);
            s3 = (if fge control_signal (Fin (throttle_max c)) \<or>
                     fle control_signal (Fin (throttle_min c))
                  then s2\<lparr>error_integral_f :=
                           fsub (error_integral_f s2) (fmul e (Fin (dt c)))\<rparr>
                  else s2)
        in Inr (control_signal, s3))"

text \<open>
  \<open>engine_model\<close> (lines 97-102) and \<open>vehicle_model\<close> (lines 104-110) as \<open>simulate\<close> calls
  them: the throttle is the \<open>float64\<close> that \<open>np.clip\<close> returned, so the divisions by
  \<open>tau_engine\<close> and by \<open>m\<close> are numpy's and raise nothing.
\<close>

definition engine_model_f64 :: "cruise \<Rightarrow> state_f64 \<Rightarrow> f64 \<Rightarrow> f64 \<times> state_f64" where
  "engine_model_f64 c s throttle_input =
     (let force_command = fmul (Fin (Kv c)) throttle_input;
          s1 = s\<lparr>engine_state_f :=
                  fadd (engine_state_f s)
                    (fdiv (fmul (fsub force_command (engine_state_f s)) (Fin (dt c)))
                       (Fin (tau_engine c)))\<rparr>
      in (engine_state_f s1, s1))"

definition vehicle_model_f64 :: "cruise \<Rightarrow> state_f64 \<Rightarrow> f64 \<Rightarrow> f64 \<Rightarrow> f64 \<times> state_f64" where
  "vehicle_model_f64 c s engine_force disturbance_force =
     (let total_force =
            fadd (fsub engine_force (fmul (Fin (b c)) (v_current_f s))) disturbance_force;
          acceleration = fdiv total_force (Fin (m c));
          s1 = s\<lparr>v_current_f := fadd (v_current_f s) (fmul acceleration (Fin (dt c)))\<rparr>
      in (v_current_f s1, s1))"

datatype reference_f64 = Constant_f64 real | Callable_f64 "f64 \<Rightarrow> f64"

definition v_ref_at_f64 :: "reference_f64 \<Rightarrow> f64 \<Rightarrow> f64" where
  "v_ref_at_f64 reference_speed t =
     (case reference_speed of Callable_f64 f \<Rightarrow> f t | Constant_f64 k \<Rightarrow> Fin k)"

definition dist_force_at_f64 :: "(f64 \<Rightarrow> f64) list option \<Rightarrow> f64 \<Rightarrow> f64" where
  "dist_force_at_f64 disturbances t =
     (case disturbances of
        None \<Rightarrow> Fin 0
      | Some fs \<Rightarrow>
          if fs = [] then Fin 0
          else foldl (\<lambda>dist_force dist_func. fadd dist_force (dist_func t)) (Fin 0) fs)"

text \<open>
  \<open>np.arange(0, stop, step)\<close> with Python numbers. The length is the ceiling of the
  quotient \<open>stop / step\<close> as Python computes it, a double: a zero step raises
  \<open>ZeroDivisionError\<close>; a ceiling outside the range of a 64-bit index raises
  \<open>OverflowError\<close>; a quotient that underflows to zero with \<open>stop\<close> not zero gives one
  element when it is positive and none when it is negative. Element \<open>i\<close> is
  \<open>0 + i * step\<close>, computed on doubles, the index converted first. Memory is taken to be
  unbounded.
\<close>

definition arange_length :: "real \<Rightarrow> real \<Rightarrow> raised + nat" where
  "arange_length stop step =
     (if step = 0 then Inl ZeroDivision_Error
      else case fdiv (Fin stop) (Fin step) of
             Fin q \<Rightarrow>
               if q = 0 \<and> stop \<noteq> 0 then Inr (if stop / step < 0 then 0 else 1)
               else if \<lceil>q\<rceil> < - (2 ^ 63) \<or> 2 ^ 63 < \<lceil>q\<rceil> then Inl Overflow_Error
               else Inr (nat \<lceil>q\<rceil>)
           | _ \<Rightarrow> Inl Overflow_Error)"

definition np_arange_f64 :: "real \<Rightarrow> real \<Rightarrow> raised + f64 list" where
  "np_arange_f64 stop step =
     (case arange_length stop step of
        Inl x \<Rightarrow> Inl x
      | Inr n \<Rightarrow> Inr (map (\<lambda>i. fadd (Fin 0) (fmul (fl (real i)) (Fin step))) [0..<n]))"

record logs_f64 =
  speed_log_f :: "f64 list"
  throttle_log_f :: "f64 list"
  error_log_f :: "f64 list"
  force_log_f :: "f64 list"
  reference_log_f :: "f64 list"

record row_f64 =
  row_speed_f :: f64
  row_throttle_f :: f64
  row_error_f :: f64
  row_force_f :: f64
  row_reference_f :: f64

definition zero_logs_f64 :: "nat \<Rightarrow> logs_f64" where
  "zero_logs_f64 n_steps =
     \<lparr>speed_log_f = replicate n_steps (Fin 0), throttle_log_f = replicate n_steps (Fin 0),
      error_log_f = replicate n_steps (Fin 0), force_log_f = replicate n_steps (Fin 0),
      reference_log_f = replicate n_steps (Fin 0)\<rparr>"

definition write_row_f64 :: "logs_f64 \<Rightarrow> nat \<Rightarrow> row_f64 \<Rightarrow> logs_f64" where
  "write_row_f64 l i r =
     \<lparr>speed_log_f = (speed_log_f l)[i := row_speed_f r],
      throttle_log_f = (throttle_log_f l)[i := row_throttle_f r],
      error_log_f = (error_log_f l)[i := row_error_f r],
      force_log_f = (force_log_f l)[i := row_force_f r],
      reference_log_f = (reference_log_f l)[i := row_reference_f r]\<rparr>"

text \<open>The body of the loop (lines 132-154) at time \<open>t\<close>.\<close>

definition sim_step_f64 ::
  "cruise \<Rightarrow> state_f64 \<Rightarrow> reference_f64 \<Rightarrow> (f64 \<Rightarrow> f64) list option \<Rightarrow> f64
     \<Rightarrow> (raised \<times> state_f64) + (row_f64 \<times> state_f64)" where
  "sim_step_f64 c s reference_speed disturbances t =
     (let v_ref = v_ref_at_f64 reference_speed t;
          e = fsub v_ref (v_current_f s)
      in case pid_controller_f64 c s e of
           Inl x \<Rightarrow> Inl x
         | Inr (throttle_cmd, s1) \<Rightarrow>
             (let (engine_force, s2) = engine_model_f64 c s1 throttle_cmd;
                  dist_force = dist_force_at_f64 disturbances t;
                  (speed, s3) = vehicle_model_f64 c s2 engine_force dist_force
              in Inr (\<lparr>row_speed_f = speed, row_throttle_f = throttle_cmd, row_error_f = e,
                       row_force_f = engine_force, row_reference_f = v_ref\<rparr>, s3)))"

text \<open>The loop \<open>for i, t in enumerate(time)\<close> (line 131), writing the logs by index.\<close>

fun sim_loop_f64 ::
  "cruise \<Rightarrow> state_f64 \<Rightarrow> reference_f64 \<Rightarrow> (f64 \<Rightarrow> f64) list option \<Rightarrow> logs_f64
     \<Rightarrow> (nat \<times> f64) list \<Rightarrow> (raised \<times> state_f64) + (logs_f64 \<times> state_f64)" where
  "sim_loop_f64 c s reference_speed disturbances l [] = Inr (l, s)"
| "sim_loop_f64 c s reference_speed disturbances l ((i, t) # its) =
     (case sim_step_f64 c s reference_speed disturbances t of
        Inl x \<Rightarrow> Inl x
      | Inr (r, s') \<Rightarrow>
          sim_loop_f64 c s' reference_speed disturbances (write_row_f64 l i r) its)"

record results_f64 =
  res_time_f :: "f64 list"
  res_speed_f :: "f64 list"
  res_throttle_f :: "f64 list"
  res_error_f :: "f64 list"
  res_force_f :: "f64 list"
  res_reference_f :: "f64 list"

text \<open>
  \<open>simulate\<close> (lines 112-170): the time vector is built at line 118, before the state is
  reset at line 129, so a failure of \<open>np.arange\<close> leaves the state as it was.
\<close>

definition simulate_f64 ::
  "cruise \<Rightarrow> state_f64 \<Rightarrow> reference_f64 option \<Rightarrow> (f64 \<Rightarrow> f64) list option
     \<Rightarrow> (raised \<times> state_f64) + (results_f64 \<times> state_f64)" where
  "simulate_f64 c s reference_speed disturbances =
     (let reference_speed' =
            (case reference_speed of None \<Rightarrow> Constant_f64 (v_desired c) | Some r \<Rightarrow> r)
      in case np_arange_f64 (T_sim c) (dt c) of
           Inl x \<Rightarrow> Inl (x, s)
         | Inr time_vec \<Rightarrow>
             (let n_steps = length time_vec;
                  l0 = zero_logs_f64 n_steps;
                  s0 = reset_states_f64 s
              in case sim_loop_f64 c s0 reference_speed' disturbances l0
                        (zip [0..<n_steps] time_vec) of
                   Inl x \<Rightarrow> Inl x
                 | Inr (l, s') \<Rightarrow>
                     Inr (\<lparr>res_time_f = time_vec, res_speed_f = speed_log_f l,
                           res_throttle_f = throttle_log_f l, res_error_f = error_log_f l,
                           res_force_f = force_log_f l,
                           res_reference_f = reference_log_f l\<rparr>, s')))"

text \<open>
  The steps of a run one after the other, each on the state the one before left, with
  their rows collected in order: what the loop computes, without the logs.
\<close>

fun run_steps ::
  "cruise \<Rightarrow> state_f64 \<Rightarrow> reference_f64 \<Rightarrow> (f64 \<Rightarrow> f64) list option \<Rightarrow> f64 list
     \<Rightarrow> (raised \<times> state_f64) + (row_f64 list \<times> state_f64)" where
  "run_steps c s r d [] = Inr ([], s)"
| "run_steps c s r d (t # ts) =
     (case sim_step_f64 c s r d t of
        Inl x \<Rightarrow> Inl x
      | Inr (rw, s1) \<Rightarrow>
          (case run_steps c s1 r d ts of
             Inl x \<Rightarrow> Inl x
           | Inr (rws, s2) \<Rightarrow> Inr (rw # rws, s2)))"

definition results_of :: "f64 list \<Rightarrow> row_f64 list \<Rightarrow> results_f64" where
  "results_of ts rws =
     \<lparr>res_time_f = ts, res_speed_f = map row_speed_f rws,
      res_throttle_f = map row_throttle_f rws, res_error_f = map row_error_f rws,
      res_force_f = map row_force_f rws, res_reference_f = map row_reference_f rws\<rparr>"

text \<open>
  The parameters of \<open>__init__\<close> as doubles: \<open>0.01\<close> is the double nearest to one
  hundredth, the others are exact.
\<close>

definition params_init :: cruise where
  "params_init = cruise_init\<lparr>dt := 5764607523034235 / 2 ^ 59\<rparr>"

definition state_init :: state_f64 where
  "state_init =
     \<lparr>v_current_f = Fin 0, throttle_f = Fin 0, error_integral_f = Fin 0,
      error_prev_f = Fin 0, engine_state_f = Fin 0, vehicle_state_f = Fin 0\<rparr>"

text \<open>
  Names for values that \<open>simulate\<close> computes before its loop, for a grid of \<open>n\<close> points,
  and for the two forms of a command: a finite number within the limits, or at or beyond
  a limit as line 92 tests it.
\<close>

definition grid_f64 :: "cruise \<Rightarrow> nat \<Rightarrow> f64 list" where
  "grid_f64 c n = map (\<lambda>i. fadd (Fin 0) (fmul (fl (real i)) (Fin (dt c)))) [0..<n]"

definition ref_of_f64 :: "cruise \<Rightarrow> reference_f64 option \<Rightarrow> reference_f64" where
  "ref_of_f64 c reference_speed =
     (case reference_speed of None \<Rightarrow> Constant_f64 (v_desired c) | Some r \<Rightarrow> r)"


definition saturated :: "cruise \<Rightarrow> f64 \<Rightarrow> bool" where
  "saturated c u \<longleftrightarrow> fge u (Fin (throttle_max c)) \<or> fle u (Fin (throttle_min c))"

text \<open>Lines 78 and 93 one after the other: add the product, then subtract it again.\<close>

definition add_then_subtract :: "f64 \<Rightarrow> f64 \<Rightarrow> f64" where
  "add_then_subtract x p = fsub (fadd x p) p"

text \<open>
  Parameter sets for the examples, all exact doubles: a step of the double nearest to
  \<open>0.3\<close> over one second; the doubles nearest to \<open>0.1\<close> and \<open>1.1\<close>; gains at
  \<open>2 ^ 1023\<close> with opposite signs; no engine lag.
\<close>

definition cruise_uneven_f64 :: cruise where
  "cruise_uneven_f64 = cruise_init\<lparr>dt := 5404319552844595 / 2 ^ 54, T_sim := 1\<rparr>"

definition cruise_tenth :: cruise where
  "cruise_tenth =
     cruise_init\<lparr>dt := 3602879701896397 / 2 ^ 55, T_sim := 2476979795053773 / 2 ^ 51\<rparr>"

definition cruise_overflow :: cruise where
  "cruise_overflow = cruise_small\<lparr>Kp := 2 ^ 1023, Kd := - (2 ^ 1023)\<rparr>"

definition cruise_no_lag :: cruise where
  "cruise_no_lag = cruise_small\<lparr>tau_engine := 0\<rparr>"

text \<open>
  The logs after a stretch of the loop has written the rows \<open>rws\<close> at the consecutive
  indices from \<open>k\<close> on.
\<close>

definition splice :: "logs_f64 \<Rightarrow> nat \<Rightarrow> row_f64 list \<Rightarrow> logs_f64" where
  "splice l k rws =
     \<lparr>speed_log_f = take k (speed_log_f l) @ map row_speed_f rws @
        drop (k + length rws) (speed_log_f l),
      throttle_log_f = take k (throttle_log_f l) @ map row_throttle_f rws @
        drop (k + length rws) (throttle_log_f l),
      error_log_f = take k (error_log_f l) @ map row_error_f rws @
        drop (k + length rws) (error_log_f l),
      force_log_f = take k (force_log_f l) @ map row_force_f rws @
        drop (k + length rws) (force_log_f l),
      reference_log_f = take k (reference_log_f l) @ map row_reference_f rws @
        drop (k + length rws) (reference_log_f l)\<rparr>"

section \<open>Properties\<close>

subsection \<open>The simulation on real numbers\<close>

lemma same_params_refl: "same_params c c"
  by (simp add: same_params_def)

lemma same_params_trans: "same_params c c1 \<Longrightarrow> same_params c1 c2 \<Longrightarrow> same_params c c2"
  by (simp add: same_params_def)

lemma same_params_reset: "same_params c (reset_states c)"
  by (simp add: same_params_def reset_states_def)

lemma reset_states_cong: "same_params c c' \<Longrightarrow> reset_states c' = reset_states c"
  by (cases c, cases c') (simp add: same_params_def reset_states_def)


lemma pid_controller_Inr:
  "dt c \<noteq> 0 \<Longrightarrow>
   pid_controller c e =
     Inr (np_clip (raw_signal c e) (throttle_min c) (throttle_max c),
          c\<lparr>error_integral :=
               (if np_clip (raw_signal c e) (throttle_min c) (throttle_max c) \<ge> throttle_max c \<or>
                   np_clip (raw_signal c e) (throttle_min c) (throttle_max c) \<le> throttle_min c
                then error_integral c else error_integral c + e * dt c),
            error_prev := e\<rparr>)"
  by (simp add: pid_controller_def Let_def)

lemma pid_controller_Inl: "dt c = 0 \<Longrightarrow> pid_controller c e = Inl (ZeroDivisionError, c)"
  by (simp add: pid_controller_def Let_def)

lemma pid_controller_InrD:
  "pid_controller c e = Inr (u, c') \<Longrightarrow>
   dt c \<noteq> 0 \<and> u = np_clip (raw_signal c e) (throttle_min c) (throttle_max c) \<and>
   c' = c\<lparr>error_integral :=
            (if u \<ge> throttle_max c \<or> u \<le> throttle_min c
             then error_integral c else error_integral c + e * dt c),
          error_prev := e\<rparr>"
  by (cases "dt c = 0") (auto simp: pid_controller_Inl pid_controller_Inr)

lemma pid_same_params: "pid_controller c e = Inr (u, c') \<Longrightarrow> same_params c c'"
  by (drule pid_controller_InrD) (auto simp: same_params_def)

lemma engine_model_Inr:
  "tau_engine c \<noteq> 0 \<Longrightarrow>
   engine_model c u =
     Inr (engine_state c + (Kv c * u - engine_state c) * dt c / tau_engine c,
          c\<lparr>engine_state := engine_state c + (Kv c * u - engine_state c) * dt c / tau_engine c\<rparr>)"
  by (simp add: engine_model_def Let_def)

lemma engine_model_InrD:
  "engine_model c u = Inr (f, c') \<Longrightarrow>
   tau_engine c \<noteq> 0 \<and> f = engine_state c + (Kv c * u - engine_state c) * dt c / tau_engine c \<and>
   c' = c\<lparr>engine_state := f\<rparr>"
  by (cases "tau_engine c = 0") (auto simp: engine_model_def Let_def)

lemma vehicle_model_Inr:
  "m c \<noteq> 0 \<Longrightarrow>
   vehicle_model c f d =
     Inr (v_current c + (f - b c * v_current c + d) / m c * dt c,
          c\<lparr>v_current := v_current c + (f - b c * v_current c + d) / m c * dt c\<rparr>)"
  by (simp add: vehicle_model_def Let_def)

lemma vehicle_model_InrD:
  "vehicle_model c f d = Inr (v, c') \<Longrightarrow>
   m c \<noteq> 0 \<and> v = v_current c + (f - b c * v_current c + d) / m c * dt c \<and>
   c' = c\<lparr>v_current := v\<rparr>"
  by (cases "m c = 0") (auto simp: vehicle_model_def Let_def)

lemma sim_step_InrD:
  assumes "sim_step c r d t = Inr (rw, c')"
  shows "\<exists>c1 c2.
     pid_controller c (v_ref_at r t - v_current c) = Inr (row_throttle rw, c1) \<and>
     engine_model c1 (row_throttle rw) = Inr (row_force rw, c2) \<and>
     vehicle_model c2 (row_force rw) (dist_force_at d t) = Inr (row_speed rw, c') \<and>
     row_error rw = v_ref_at r t - v_current c \<and> row_reference rw = v_ref_at r t"
  using assms
  by (auto simp: sim_step_def Let_def split: sum.splits prod.splits)

lemma sim_step_same_params:
  assumes "sim_step c r d t = Inr (rw, c')"
  shows "same_params c c'"
proof -
  from sim_step_InrD [OF assms] obtain c1 c2 where
    p: "pid_controller c (v_ref_at r t - v_current c) = Inr (row_throttle rw, c1)" and
    e: "engine_model c1 (row_throttle rw) = Inr (row_force rw, c2)" and
    v: "vehicle_model c2 (row_force rw) (dist_force_at d t) = Inr (row_speed rw, c')"
    by blast
  have "same_params c c1" by (rule pid_same_params [OF p])
  moreover have "same_params c1 c2"
    using engine_model_InrD [OF e] by (auto simp: same_params_def)
  moreover have "same_params c2 c'"
    using vehicle_model_InrD [OF v] by (auto simp: same_params_def)
  ultimately show ?thesis by (blast intro: same_params_trans)
qed

lemma sim_step_total:
  assumes "dt c \<noteq> 0" "tau_engine c \<noteq> 0" "m c \<noteq> 0"
  shows "\<exists>rw c'. sim_step c r d t = Inr (rw, c')"
  using assms
  by (simp add: sim_step_def Let_def pid_controller_Inr engine_model_Inr vehicle_model_Inr)

lemma write_row_lengths:
  "length (speed_log (write_row l i r)) = length (speed_log l)"
  "length (throttle_log (write_row l i r)) = length (throttle_log l)"
  "length (error_log (write_row l i r)) = length (error_log l)"
  "length (force_log (write_row l i r)) = length (force_log l)"
  "length (reference_log (write_row l i r)) = length (reference_log l)"
  by (simp_all add: write_row_def)

lemma sim_loop_lengths:
  "sim_loop c r d l its = Inr (l', c') \<Longrightarrow>
   length (speed_log l') = length (speed_log l) \<and>
   length (throttle_log l') = length (throttle_log l) \<and>
   length (error_log l') = length (error_log l) \<and>
   length (force_log l') = length (force_log l) \<and>
   length (reference_log l') = length (reference_log l)"
proof (induction its arbitrary: c l)
  case Nil
  then show ?case by simp
next
  case (Cons it its)
  obtain i t where it: "it = (i, t)" by (cases it)
  from Cons.prems it obtain rw c1 where
    "sim_loop c1 r d (write_row l i rw) its = Inr (l', c')"
    by (auto split: sum.splits prod.splits)
  from Cons.IH [OF this] show ?case by (simp add: write_row_lengths)
qed

lemma sim_loop_same_params:
  "sim_loop c r d l its = Inr (l', c') \<Longrightarrow> same_params c c'"
proof (induction its arbitrary: c l)
  case Nil
  then show ?case by (simp add: same_params_refl)
next
  case (Cons it its)
  obtain i t where it: "it = (i, t)" by (cases it)
  from Cons.prems it obtain rw c1 where
    st: "sim_step c r d t = Inr (rw, c1)" and
    lp: "sim_loop c1 r d (write_row l i rw) its = Inr (l', c')"
    by (auto split: sum.splits prod.splits)
  from sim_step_same_params [OF st] Cons.IH [OF lp] show ?case
    by (rule same_params_trans)
qed

lemma sim_loop_untouched:
  "sim_loop c r d l its = Inr (l', c') \<Longrightarrow> j \<notin> fst ` set its \<Longrightarrow>
   speed_log l' ! j = speed_log l ! j \<and> throttle_log l' ! j = throttle_log l ! j \<and>
   error_log l' ! j = error_log l ! j \<and> force_log l' ! j = force_log l ! j \<and>
   reference_log l' ! j = reference_log l ! j"
proof (induction its arbitrary: c l)
  case Nil
  then show ?case by simp
next
  case (Cons it its)
  obtain i t where it: "it = (i, t)" by (cases it)
  from Cons.prems it obtain rw c1 where
    lp: "sim_loop c1 r d (write_row l i rw) its = Inr (l', c')"
    by (auto split: sum.splits prod.splits)
  from Cons.prems it have "j \<noteq> i" "j \<notin> fst ` set its" by auto
  with Cons.IH [OF lp] show ?case by (simp add: write_row_def)
qed

lemma sim_loop_total:
  "dt c \<noteq> 0 \<Longrightarrow> tau_engine c \<noteq> 0 \<Longrightarrow> m c \<noteq> 0 \<Longrightarrow>
   \<exists>l' c'. sim_loop c r d l its = Inr (l', c')"
proof (induction its arbitrary: c l)
  case Nil
  then show ?case by simp
next
  case (Cons it its)
  obtain i t where it: "it = (i, t)" by (cases it)
  from sim_step_total [OF Cons.prems] obtain rw c1 where
    st: "sim_step c r d t = Inr (rw, c1)" by blast
  from sim_step_same_params [OF st] Cons.prems
  have "dt c1 \<noteq> 0" "tau_engine c1 \<noteq> 0" "m c1 \<noteq> 0" by (simp_all add: same_params_def)
  from Cons.IH [OF this] obtain l' c' where
    "sim_loop c1 r d (write_row l i rw) its = Inr (l', c')" by blast
  with st it show ?case by simp
qed

text \<open>The row found at an index after the loop is the row its step wrote there.\<close>

lemma sim_loop_rows:
  assumes "sim_loop c r d l its = Inr (l', c')"
    and "distinct (map fst its)"
    and "(i, t) \<in> set its"
    and "i < length (speed_log l)" "i < length (throttle_log l)" "i < length (error_log l)"
      "i < length (force_log l)" "i < length (reference_log l)"
  shows "\<exists>c1 c2 rw. same_params c c1 \<and> sim_step c1 r d t = Inr (rw, c2) \<and>
           speed_log l' ! i = row_speed rw \<and> throttle_log l' ! i = row_throttle rw \<and>
           error_log l' ! i = row_error rw \<and> force_log l' ! i = row_force rw \<and>
           reference_log l' ! i = row_reference rw"
  using assms
proof (induction its arbitrary: c l)
  case Nil
  then show ?case by simp
next
  case (Cons it its)
  obtain j s where it: "it = (j, s)" by (cases it)
  from Cons.prems(1) it obtain rw c1 where
    st: "sim_step c r d s = Inr (rw, c1)" and
    lp: "sim_loop c1 r d (write_row l j rw) its = Inr (l', c')"
    by (auto split: sum.splits prod.splits)
  from Cons.prems(2) it have dj: "j \<notin> fst ` set its" and di: "distinct (map fst its)"
    by auto
  show ?case
  proof (cases "(i, t) = (j, s)")
    case True
    from sim_loop_untouched [OF lp dj] True Cons.prems(4-8)
    have "speed_log l' ! i = row_speed rw \<and> throttle_log l' ! i = row_throttle rw \<and>
          error_log l' ! i = row_error rw \<and> force_log l' ! i = row_force rw \<and>
          reference_log l' ! i = row_reference rw"
      by (simp add: write_row_def)
    with st True same_params_refl [of c] show ?thesis by blast
  next
    case False
    with Cons.prems(3) it have mem: "(i, t) \<in> set its" by auto
    from Cons.IH [OF lp di mem] Cons.prems(4-8) obtain c2 c3 rw' where
      "same_params c1 c2" "sim_step c2 r d t = Inr (rw', c3)"
      "speed_log l' ! i = row_speed rw'" "throttle_log l' ! i = row_throttle rw'"
      "error_log l' ! i = row_error rw'" "force_log l' ! i = row_force rw'"
      "reference_log l' ! i = row_reference rw'"
      by (auto simp: write_row_lengths)
    with same_params_trans [OF sim_step_same_params [OF st]] show ?thesis by blast
  qed
qed

lemma length_grid: "length (grid c) = n_grid c"
  by (simp add: grid_def)

lemma simulate_zero_step: "dt c = 0 \<Longrightarrow> simulate c r d = Inl (ZeroDivisionError, c)"
  by (simp add: simulate_def np_arange_def Let_def)

lemma simulate_unfold:
  "dt c \<noteq> 0 \<Longrightarrow>
   simulate c r d =
     (case sim_loop (reset_states c) (ref_of c r) d (zero_logs (n_grid c))
             (zip [0..<n_grid c] (grid c)) of
        Inl x \<Rightarrow> Inl x
      | Inr (l, c') \<Rightarrow>
          Inr (\<lparr>res_time = grid c, res_speed = speed_log l, res_throttle = throttle_log l,
                res_error = error_log l, res_force = force_log l,
                res_reference = reference_log l\<rparr>, c'))"
  unfolding simulate_def np_arange_def Let_def grid_def n_grid_def ref_of_def
  by simp

lemma simulate_InrD:
  assumes "simulate c r d = Inr (res, c')"
  shows "dt c \<noteq> 0 \<and>
     (\<exists>l. sim_loop (reset_states c) (ref_of c r) d (zero_logs (n_grid c))
             (zip [0..<n_grid c] (grid c)) = Inr (l, c') \<and>
          res = \<lparr>res_time = grid c, res_speed = speed_log l, res_throttle = throttle_log l,
                 res_error = error_log l, res_force = force_log l,
                 res_reference = reference_log l\<rparr>)"
proof (cases "dt c = 0")
  case True
  with assms show ?thesis by (simp add: simulate_zero_step)
next
  case False
  with assms show ?thesis
    by (auto simp: simulate_unfold split: sum.splits prod.splits)
qed

lemma simulate_lengths:
  assumes "simulate c r d = Inr (res, c')"
  shows "length (res_time res) = n_grid c \<and> length (res_speed res) = n_grid c \<and>
     length (res_throttle res) = n_grid c \<and> length (res_error res) = n_grid c \<and>
     length (res_force res) = n_grid c \<and> length (res_reference res) = n_grid c"
proof -
  from simulate_InrD [OF assms] obtain l where
    lp: "sim_loop (reset_states c) (ref_of c r) d (zero_logs (n_grid c))
           (zip [0..<n_grid c] (grid c)) = Inr (l, c')" and
    res: "res = \<lparr>res_time = grid c, res_speed = speed_log l, res_throttle = throttle_log l,
                 res_error = error_log l, res_force = force_log l,
                 res_reference = reference_log l\<rparr>"
    by blast
  from sim_loop_lengths [OF lp] res show ?thesis
    by (simp add: zero_logs_def length_grid)
qed

lemma simulate_total:
  assumes "dt c \<noteq> 0" "tau_engine c \<noteq> 0" "m c \<noteq> 0"
  shows "\<exists>res c'. simulate c r d = Inr (res, c')"
proof -
  have "dt (reset_states c) \<noteq> 0" "tau_engine (reset_states c) \<noteq> 0" "m (reset_states c) \<noteq> 0"
    using assms by (simp_all add: reset_states_def)
  from sim_loop_total [OF this] obtain l c' where
    "sim_loop (reset_states c) (ref_of c r) d (zero_logs (n_grid c))
       (zip [0..<n_grid c] (grid c)) = Inr (l, c')"
    by blast
  with assms(1) show ?thesis by (simp add: simulate_unfold)
qed

lemma simulate_same_params:
  assumes "simulate c r d = Inr (res, c')"
  shows "same_params c c'"
proof -
  from simulate_InrD [OF assms] obtain l where
    "sim_loop (reset_states c) (ref_of c r) d (zero_logs (n_grid c))
       (zip [0..<n_grid c] (grid c)) = Inr (l, c')"
    by blast
  from same_params_reset sim_loop_same_params [OF this] show ?thesis
    by (rule same_params_trans)
qed

lemma simulate_cong:
  assumes "same_params c c'" and "dt c \<noteq> 0"
  shows "simulate c' r d = simulate c r d"
proof -
  from assms have p: "T_sim c' = T_sim c" "dt c' = dt c" "v_desired c' = v_desired c"
    by (simp_all add: same_params_def)
  have "reset_states c' = reset_states c" using assms(1) by (rule reset_states_cong)
  moreover have "ref_of c' r = ref_of c r" using p by (cases r) (simp_all add: ref_of_def)
  moreover have "n_grid c' = n_grid c" using p by (simp add: n_grid_def)
  moreover have "grid c' = grid c" using p by (simp add: grid_def n_grid_def)
  ultimately show ?thesis using assms(2) p(2) by (simp add: simulate_unfold split: sum.splits)
qed

text \<open>Step \<open>i\<close> of a run: the row at index \<open>i\<close> is written by the loop body at \<open>i * dt\<close>.\<close>

lemma simulate_rows:
  assumes "simulate c r d = Inr (res, c')" and "i < n_grid c"
  shows "\<exists>c1 c2 rw. same_params c c1 \<and>
           sim_step c1 (ref_of c r) d (real i * dt c) = Inr (rw, c2) \<and>
           res_speed res ! i = row_speed rw \<and> res_throttle res ! i = row_throttle rw \<and>
           res_error res ! i = row_error rw \<and> res_force res ! i = row_force rw \<and>
           res_reference res ! i = row_reference rw"
proof -
  from simulate_InrD [OF assms(1)] obtain l where
    lp: "sim_loop (reset_states c) (ref_of c r) d (zero_logs (n_grid c))
           (zip [0..<n_grid c] (grid c)) = Inr (l, c')" and
    res: "res = \<lparr>res_time = grid c, res_speed = speed_log l, res_throttle = throttle_log l,
                 res_error = error_log l, res_force = force_log l,
                 res_reference = reference_log l\<rparr>"
    by blast
  have d: "distinct (map fst (zip [0..<n_grid c] (grid c)))"
    by (simp add: length_grid)
  have "(i, grid c ! i) \<in> set (zip [0..<n_grid c] (grid c))"
    using assms(2) by (auto simp: set_zip length_grid intro!: exI [of _ i])
  moreover have "grid c ! i = real i * dt c"
    using assms(2) by (simp add: grid_def)
  ultimately have mem: "(i, real i * dt c) \<in> set (zip [0..<n_grid c] (grid c))" by simp
  from sim_loop_rows [OF lp d mem] assms(2) obtain c1 c2 rw where
    "same_params (reset_states c) c1" "sim_step c1 (ref_of c r) d (real i * dt c) = Inr (rw, c2)"
    "speed_log l ! i = row_speed rw" "throttle_log l ! i = row_throttle rw"
    "error_log l ! i = row_error rw" "force_log l ! i = row_force rw"
    "reference_log l ! i = row_reference rw"
    by (auto simp: zero_logs_def)
  with same_params_trans [OF same_params_reset] res show ?thesis
    by (intro exI [of _ c1] exI [of _ c2] exI [of _ rw]) simp
qed

lemmas eval_defs =
  simulate_def np_arange_def cruise_small_def cruise_uneven_def cruise_inverted_def
  cruise_init_def reset_states_def zero_logs_def sim_step_def pid_controller_def
  engine_model_def vehicle_model_def raw_signal_def p_term_def i_term_def d_term_def
  np_clip_def write_row_def v_ref_at_def dist_force_at_def Let_def upt_rec

lemma small_eval:
  "simulate cruise_small None None =
     Inr (\<lparr>res_time = [0, 1 / 2], res_speed = [1 / 4, 79 / 160], res_throttle = [1, 1],
           res_error = [29, 115 / 4], res_force = [500, 500], res_reference = [29, 29]\<rparr>,
          cruise_small\<lparr>v_current := 79 / 160, error_prev := 115 / 4, engine_state := 500\<rparr>)"
  by (simp add: eval_defs)

lemma uneven_eval:
  "simulate cruise_uneven None None =
     Inr (\<lparr>res_time = [0, 3 / 10, 3 / 5, 9 / 10],
           res_speed = [9 / 100, 4293 / 20000, 1407321 / 4000000, 394170237 / 800000000],
           res_throttle = [1, 1, 1, 1],
           res_error = [29, 2891 / 100, 575707 / 20000, 114592679 / 4000000],
           res_force = [300, 420, 468, 2436 / 5],
           res_reference = [29, 29, 29, 29]\<rparr>,
          cruise_uneven\<lparr>v_current := 394170237 / 800000000,
            error_prev := 114592679 / 4000000, engine_state := 2436 / 5\<rparr>)"
  by (simp add: eval_defs)

lemma inverted_eval:
  "simulate cruise_inverted None None =
     Inr (\<lparr>res_time = [0, 1 / 2], res_speed = [0, 0], res_throttle = [0, 0],
           res_error = [29, 29], res_force = [0, 0], res_reference = [29, 29]\<rparr>,
          cruise_inverted\<lparr>error_prev := 29\<rparr>)"
  by (simp add: eval_defs)

lemma uneven_floor: "\<lfloor>T_sim cruise_uneven / dt cruise_uneven\<rfloor> = 3"
  by (simp add: eval_defs)



text \<open>
  Claim C6 (actuator update). With \<open>tau_engine > 0\<close>, \<open>engine_model\<close> called with command
  \<open>u\<close> on an object whose engine state is \<open>x\<close> returns \<open>x + (Kv u - x) dt / tau_engine\<close>
  and stores that value as the new engine state; no other attribute changes.
\<close>

theorem engine_model_step:
  assumes "0 < tau_engine c"
    and "x = engine_state c + (Kv c * u - engine_state c) * dt c / tau_engine c"
  shows "engine_model c u = Inr (x, c\<lparr>engine_state := x\<rparr>)"
  using assms by (simp add: engine_model_Inr)

theorem engine_model_step_witness:
  "0 < tau_engine cruise_init \<and>
   engine_model cruise_init 1 = Inr (10, cruise_init\<lparr>engine_state := 10\<rparr>)"
  using engine_model_step [of cruise_init 10 1]
  by (simp add: cruise_init_def reset_states_def)

text \<open>
  Claim C7 (plant update). With \<open>m > 0\<close>, \<open>vehicle_model\<close> called with engine force \<open>f\<close>
  and disturbance force \<open>g\<close> on an object whose speed is \<open>v\<close> returns
  \<open>v + ((f - b v + g) / m) dt\<close> and stores that value as the new speed; no other attribute
  changes.
\<close>

theorem vehicle_model_step:
  assumes "0 < m c"
    and "v = v_current c + ((f - b c * v_current c + g) / m c) * dt c"
  shows "vehicle_model c f g = Inr (v, c\<lparr>v_current := v\<rparr>)"
  using assms by (simp add: vehicle_model_Inr)

theorem vehicle_model_step_witness:
  "0 < m cruise_init \<and>
   vehicle_model (cruise_init\<lparr>v_current := 2\<rparr>) 500 (- 100) =
     Inr (2003 / 1000, cruise_init\<lparr>v_current := 2003 / 1000\<rparr>)"
  using vehicle_model_step [of "cruise_init\<lparr>v_current := 2\<rparr>" "2003 / 1000" 500 "- 100"]
  by (simp add: cruise_init_def reset_states_def)

text \<open>
  Claim C8 (determinism). A second call of \<open>simulate\<close> on the object the first call left
  behind, with the same reference and disturbances, returns the same records and leaves
  the same object. More generally two objects with the same parameters give the same
  result, whatever their state attributes, when \<open>dt\<close> is not zero. \<open>reset_states\<close> sets
  the speed, the throttle, the error integral, the previous error, the engine state and
  the vehicle state to zero and changes no parameter.
\<close>

theorem simulate_deterministic:
  "(\<forall>res c1. simulate c r d = Inr (res, c1) \<longrightarrow> simulate c1 r d = Inr (res, c1)) \<and>
   (\<forall>c'. same_params c c' \<and> dt c \<noteq> 0 \<longrightarrow> simulate c' r d = simulate c r d) \<and>
   v_current (reset_states c) = 0 \<and> throttle (reset_states c) = 0 \<and>
   error_integral (reset_states c) = 0 \<and> error_prev (reset_states c) = 0 \<and>
   engine_state (reset_states c) = 0 \<and> vehicle_state (reset_states c) = 0 \<and>
   same_params c (reset_states c)"
proof (intro conjI allI impI)
  fix res c1
  assume s: "simulate c r d = Inr (res, c1)"
  from simulate_InrD [OF s] have "dt c \<noteq> 0" by simp
  from simulate_cong [OF simulate_same_params [OF s] this] s
  show "simulate c1 r d = Inr (res, c1)" by simp
next
  fix c'
  assume "same_params c c' \<and> dt c \<noteq> 0"
  then show "simulate c' r d = simulate c r d" by (simp add: simulate_cong)
qed (simp_all add: reset_states_def same_params_def)

theorem simulate_deterministic_witness:
  "simulate cruise_small None None =
     Inr (\<lparr>res_time = [0, 1 / 2], res_speed = [1 / 4, 79 / 160], res_throttle = [1, 1],
           res_error = [29, 115 / 4], res_force = [500, 500], res_reference = [29, 29]\<rparr>,
          cruise_small\<lparr>v_current := 79 / 160, error_prev := 115 / 4, engine_state := 500\<rparr>) \<and>
   simulate (cruise_small\<lparr>v_current := 79 / 160, error_prev := 115 / 4, engine_state := 500\<rparr>)
       None None =
     Inr (\<lparr>res_time = [0, 1 / 2], res_speed = [1 / 4, 79 / 160], res_throttle = [1, 1],
           res_error = [29, 115 / 4], res_force = [500, 500], res_reference = [29, 29]\<rparr>,
          cruise_small\<lparr>v_current := 79 / 160, error_prev := 115 / 4, engine_state := 500\<rparr>) \<and>
   same_params cruise_small (cruise_small\<lparr>v_current := 7, error_integral := 3\<rparr>) \<and>
   dt cruise_small \<noteq> 0 \<and>
   simulate (cruise_small\<lparr>v_current := 7, error_integral := 3\<rparr>) None None =
     simulate cruise_small None None"
proof -
  note det = simulate_deterministic [of cruise_small None None]
  from det have again:
    "\<forall>res c1. simulate cruise_small None None = Inr (res, c1) \<longrightarrow>
       simulate c1 None None = Inr (res, c1)"
    by (rule conjunct1)
  from det have other:
    "\<forall>c'. same_params cruise_small c' \<and> dt cruise_small \<noteq> 0 \<longrightarrow>
       simulate c' None None = simulate cruise_small None None"
    by (rule conjunct1 [OF conjunct2])
  have sp: "same_params cruise_small (cruise_small\<lparr>v_current := 7, error_integral := 3\<rparr>)"
    by (simp add: same_params_def)
  have nz: "dt cruise_small \<noteq> 0"
    by (simp add: cruise_small_def cruise_init_def reset_states_def)
  from again small_eval have
    "simulate (cruise_small\<lparr>v_current := 79 / 160, error_prev := 115 / 4, engine_state := 500\<rparr>)
       None None =
     Inr (\<lparr>res_time = [0, 1 / 2], res_speed = [1 / 4, 79 / 160], res_throttle = [1, 1],
           res_error = [29, 115 / 4], res_force = [500, 500], res_reference = [29, 29]\<rparr>,
          cruise_small\<lparr>v_current := 79 / 160, error_prev := 115 / 4, engine_state := 500\<rparr>)"
    by blast
  moreover from other sp nz have
    "simulate (cruise_small\<lparr>v_current := 7, error_integral := 3\<rparr>) None None =
     simulate cruise_small None None"
    by blast
  ultimately show ?thesis using small_eval sp nz by blast
qed





text \<open>
  Claim C10 (previous error). Every call of \<open>pid_controller\<close> that returns leaves
  \<open>error_prev\<close> equal to the error it was called with, saturated or not, and differs from
  the object before the call in \<open>error_integral\<close> and \<open>error_prev\<close> only; the call returns
  whenever \<open>dt\<close> is not zero. After \<open>reset_states\<close> the previous error is zero, so the
  derivative term of the first step is \<open>Kd (e - 0) / dt\<close>.
\<close>

theorem pid_sets_error_prev:
  "(\<forall>u c'. pid_controller c e = Inr (u, c') \<longrightarrow>
      error_prev c' = e \<and> c' = c\<lparr>error_integral := error_integral c', error_prev := e\<rparr>) \<and>
   (dt c \<noteq> 0 \<longrightarrow> (\<exists>u c'. pid_controller c e = Inr (u, c'))) \<and>
   error_prev (reset_states c) = 0 \<and>
   d_term (reset_states c) e = Kd c * (e - 0) / dt c"
proof (intro conjI allI impI)
  fix u c'
  assume p: "pid_controller c e = Inr (u, c')"
  from pid_controller_InrD [OF p] show "error_prev c' = e" by auto
  from pid_controller_InrD [OF p]
  show "c' = c\<lparr>error_integral := error_integral c', error_prev := e\<rparr>" by auto
next
  assume "dt c \<noteq> 0"
  then show "\<exists>u c'. pid_controller c e = Inr (u, c')" by (simp add: pid_controller_Inr)
qed (simp_all add: reset_states_def d_term_def)

theorem pid_sets_error_prev_witness:
  "dt cruise_init \<noteq> 0 \<and>
   pid_controller (cruise_init\<lparr>error_integral := 2, error_prev := 7\<rparr>) 29 =
     Inr (1, cruise_init\<lparr>error_integral := 2, error_prev := 29\<rparr>) \<and>
   pid_controller (cruise_init\<lparr>error_integral := 2, error_prev := 7\<rparr>) (1 / 100000) =
     Inr (0, cruise_init\<lparr>error_integral := 2, error_prev := 1 / 100000\<rparr>) \<and>
   d_term (reset_states cruise_init) 29 = 116000"
  using pid_sets_error_prev [of "cruise_init\<lparr>error_integral := 2, error_prev := 7\<rparr>" 29]
    pid_sets_error_prev [of cruise_init 29]
  by (simp add: eval_defs)

subsection \<open>The simulation on doubles\<close>

lemma pow2_pos: "0 < pow2 e"
  by (simp add: pow2_def)

lemma round_even_nonpos: "y \<le> 0 \<Longrightarrow> round_even y \<le> 0"
proof -
  assume y: "y \<le> 0"
  then have f: "\<lfloor>y\<rfloor> \<le> 0" by simp
  show ?thesis
  proof (cases "\<lfloor>y\<rfloor> = 0")
    case True
    then have "0 \<le> y" by (metis of_int_0 of_int_floor_le)
    with y have "y = 0" by simp
    then show ?thesis by (simp add: round_even_def)
  next
    case False
    with f have "\<lfloor>y\<rfloor> + 1 \<le> 0" by linarith
    with f show ?thesis by (simp only: round_even_def Let_def split: if_split) simp
  qed
qed

lemma round_even_nonneg: "0 \<le> y \<Longrightarrow> 0 \<le> round_even y"
proof -
  assume "0 \<le> y"
  then have "0 \<le> \<lfloor>y\<rfloor>" by simp
  then show ?thesis by (simp add: round_even_def Let_def)
qed

lemma overflow_threshold_pos: "0 < pow2 1024 - pow2 970"
  by (simp add: pow2_def)

lemma fl_nonneg:
  assumes "0 \<le> x"
  shows "fl x = PInf \<or> (\<exists>q. fl x = Fin q \<and> 0 \<le> q)"
proof (cases "pow2 1024 - pow2 970 \<le> x")
  case True
  then show ?thesis by (simp add: fl_def)
next
  case False
  from assms overflow_threshold_pos have "\<not> x \<le> - (pow2 1024 - pow2 970)" by linarith
  moreover from assms pow2_pos [of "expo x - 52"] have "0 \<le> x / pow2 (expo x - 52)"
    by simp
  then have "0 \<le> round_even (x / pow2 (expo x - 52))" by (rule round_even_nonneg)
  then have "0 \<le> of_int (round_even (x / pow2 (expo x - 52))) * pow2 (expo x - 52)"
    using pow2_pos [of "expo x - 52"] by simp
  ultimately show ?thesis using False by (simp add: fl_def)
qed

lemma fl_nonpos:
  assumes "x \<le> 0"
  shows "fl x = NInf \<or> (\<exists>q. fl x = Fin q \<and> q \<le> 0)"
proof (cases "x \<le> - (pow2 1024 - pow2 970)")
  case True
  with assms overflow_threshold_pos show ?thesis by (simp add: fl_def)
next
  case False
  from assms overflow_threshold_pos have "\<not> pow2 1024 - pow2 970 \<le> x" by linarith
  moreover from assms pow2_pos [of "expo x - 52"] have "x / pow2 (expo x - 52) \<le> 0"
    by (simp add: divide_nonpos_pos)
  then have "round_even (x / pow2 (expo x - 52)) \<le> 0" by (rule round_even_nonpos)
  then have "of_int (round_even (x / pow2 (expo x - 52))) * pow2 (expo x - 52) \<le> 0"
    using pow2_pos [of "expo x - 52"] by (simp add: mult_le_0_iff)
  ultimately show ?thesis using False by (simp add: fl_def)
qed



lemma pid_controller_f64_Inr:
  "dt c \<noteq> 0 \<Longrightarrow>
   pid_controller_f64 c s e =
     Inr (np_clip_f64 (raw_signal_f64 c s e) (throttle_min c) (throttle_max c),
          s\<lparr>error_integral_f :=
               (if saturated c (np_clip_f64 (raw_signal_f64 c s e) (throttle_min c) (throttle_max c))
                then add_then_subtract (error_integral_f s) (fmul e (Fin (dt c)))
                else fadd (error_integral_f s) (fmul e (Fin (dt c)))),
            error_prev_f := e\<rparr>)"
  by (simp add: pid_controller_f64_def Let_def saturated_def add_then_subtract_def)



lemma sim_step_f64_total:
  assumes "dt c \<noteq> 0"
  shows "\<exists>rw s'. sim_step_f64 c s r d t = Inr (rw, s')"
  using assms
  by (simp add: sim_step_f64_def Let_def pid_controller_f64_Inr split: prod.splits)

lemma run_steps_length:
  "run_steps c s r d ts = Inr (rws, s') \<Longrightarrow> length rws = length ts"
proof (induction ts arbitrary: s rws)
  case Nil
  then show ?case by simp
next
  case (Cons t ts)
  from Cons.prems obtain rw s1 rws1 where
    "run_steps c s1 r d ts = Inr (rws1, s')" and "rws = rw # rws1"
    by (auto split: sum.splits prod.splits)
  with Cons.IH show ?case by simp
qed

lemma run_steps_total:
  assumes "dt c \<noteq> 0"
  shows "\<exists>rws s'. run_steps c s r d ts = Inr (rws, s')"
proof (induction ts arbitrary: s)
  case Nil
  then show ?case by simp
next
  case (Cons t ts)
  from sim_step_f64_total [OF assms] obtain rw s1 where
    st: "sim_step_f64 c s r d t = Inr (rw, s1)" by blast
  from Cons.IH obtain rws s' where "run_steps c s1 r d ts = Inr (rws, s')" by blast
  with st show ?case by simp
qed

lemma splice_step:
  assumes "k < length xs"
  shows "take (Suc k) (xs[k := v]) = take k xs @ [v]"
  using assms by (simp add: take_Suc_conv_app_nth)

lemma splice_write_row:
  assumes "k < length (speed_log_f l)" "k < length (throttle_log_f l)"
    "k < length (error_log_f l)" "k < length (force_log_f l)" "k < length (reference_log_f l)"
  shows "splice (write_row_f64 l k rw) (Suc k) rws = splice l k (rw # rws)"
  using assms by (simp add: splice_def write_row_f64_def splice_step)

lemma sim_loop_f64_run:
  assumes "k + length ts \<le> length (speed_log_f l)" "k + length ts \<le> length (throttle_log_f l)"
    "k + length ts \<le> length (error_log_f l)" "k + length ts \<le> length (force_log_f l)"
    "k + length ts \<le> length (reference_log_f l)"
  shows "sim_loop_f64 c s r d l (zip [k..<k + length ts] ts) =
     (case run_steps c s r d ts of
        Inl x \<Rightarrow> Inl x
      | Inr (rws, s') \<Rightarrow> Inr (splice l k rws, s'))"
  using assms
proof (induction ts arbitrary: s l k)
  case Nil
  then show ?case by (simp add: splice_def)
next
  case (Cons t ts)
  have z: "zip [k..<k + length (t # ts)] (t # ts) = (k, t) # zip [Suc k..<Suc k + length ts] ts"
    by (simp add: upt_rec)
  show ?case
  proof (cases "sim_step_f64 c s r d t")
    case (Inl x)
    then show ?thesis unfolding z by simp
  next
    case (Inr p)
    obtain rw s1 where p: "p = (rw, s1)" by (cases p)
    from Cons.prems have len:
      "Suc k + length ts \<le> length (speed_log_f (write_row_f64 l k rw))"
      "Suc k + length ts \<le> length (throttle_log_f (write_row_f64 l k rw))"
      "Suc k + length ts \<le> length (error_log_f (write_row_f64 l k rw))"
      "Suc k + length ts \<le> length (force_log_f (write_row_f64 l k rw))"
      "Suc k + length ts \<le> length (reference_log_f (write_row_f64 l k rw))"
      by (simp_all add: write_row_f64_def)
    from Cons.prems have k:
      "k < length (speed_log_f l)" "k < length (throttle_log_f l)"
      "k < length (error_log_f l)" "k < length (force_log_f l)" "k < length (reference_log_f l)"
      by simp_all
    have "sim_loop_f64 c s r d l (zip [k..<k + length (t # ts)] (t # ts)) =
        sim_loop_f64 c s1 r d (write_row_f64 l k rw) (zip [Suc k..<Suc k + length ts] ts)"
      unfolding z using Inr p by simp
    also have "\<dots> =
        (case run_steps c s1 r d ts of
           Inl x \<Rightarrow> Inl x
         | Inr (rws, s') \<Rightarrow> Inr (splice (write_row_f64 l k rw) (Suc k) rws, s'))"
      by (rule Cons.IH [OF len])
    also have "\<dots> =
        (case run_steps c s r d (t # ts) of
           Inl x \<Rightarrow> Inl x
         | Inr (rws, s') \<Rightarrow> Inr (splice l k rws, s'))"
      using Inr p by (auto simp: splice_write_row [OF k] split: sum.splits)
    finally show ?thesis .
  qed
qed

lemma splice_zero_logs:
  "length rws = n \<Longrightarrow> splice (zero_logs_f64 n) 0 rws =
     \<lparr>speed_log_f = map row_speed_f rws, throttle_log_f = map row_throttle_f rws,
      error_log_f = map row_error_f rws, force_log_f = map row_force_f rws,
      reference_log_f = map row_reference_f rws\<rparr>"
  by (simp add: splice_def zero_logs_f64_def)

lemma np_arange_f64_grid:
  "np_arange_f64 (T_sim c) (dt c) =
     (case arange_length (T_sim c) (dt c) of Inl x \<Rightarrow> Inl x | Inr n \<Rightarrow> Inr (grid_f64 c n))"
  by (simp add: np_arange_f64_def grid_f64_def split: sum.splits)

lemma arange_length_InrD: "arange_length stop step = Inr n \<Longrightarrow> step \<noteq> 0"
  by (auto simp: arange_length_def split: if_splits)

lemma length_grid_f64: "length (grid_f64 c n) = n"
  by (simp add: grid_f64_def)

lemma simulate_f64_fails:
  assumes "arange_length (T_sim c) (dt c) = Inl x"
  shows "simulate_f64 c s r d = Inl (x, s)"
  using assms by (simp add: simulate_f64_def np_arange_f64_grid)

lemma simulate_f64_runs:
  assumes "arange_length (T_sim c) (dt c) = Inr n"
  shows "\<exists>rws s'.
     run_steps c (reset_states_f64 s) (ref_of_f64 c r) d (grid_f64 c n) = Inr (rws, s') \<and>
     length rws = n \<and>
     simulate_f64 c s r d = Inr (results_of (grid_f64 c n) rws, s')"
proof -
  from arange_length_InrD [OF assms] have "dt c \<noteq> 0" .
  from run_steps_total [OF this] obtain rws s' where
    run: "run_steps c (reset_states_f64 s) (ref_of_f64 c r) d (grid_f64 c n) = Inr (rws, s')"
    by blast
  from run_steps_length [OF run] have len: "length rws = n" by (simp add: length_grid_f64)
  have "sim_loop_f64 c (reset_states_f64 s) (ref_of_f64 c r) d (zero_logs_f64 n)
          (zip [0..<0 + length (grid_f64 c n)] (grid_f64 c n)) =
        (case run_steps c (reset_states_f64 s) (ref_of_f64 c r) d (grid_f64 c n) of
           Inl x \<Rightarrow> Inl x
         | Inr (rws, s') \<Rightarrow> Inr (splice (zero_logs_f64 n) 0 rws, s'))"
    by (rule sim_loop_f64_run) (simp_all add: zero_logs_f64_def length_grid_f64)
  with run have loop:
    "sim_loop_f64 c (reset_states_f64 s) (ref_of_f64 c r) d (zero_logs_f64 n)
       (zip [0..<n] (grid_f64 c n)) = Inr (splice (zero_logs_f64 n) 0 rws, s')"
    by (simp add: length_grid_f64)
  have "simulate_f64 c s r d = Inr (results_of (grid_f64 c n) rws, s')"
    unfolding simulate_f64_def np_arange_f64_grid assms Let_def
    using loop len
    by (simp add: length_grid_f64 ref_of_f64_def splice_zero_logs results_of_def)
  with run len show ?thesis by blast
qed

lemma expo_search_numeral:
  "expo_search (numeral k) lo a =
     (if pow2 (lo + 2 ^ pred_numeral k) \<le> a
      then expo_search (pred_numeral k) (lo + 2 ^ pred_numeral k) a
      else expo_search (pred_numeral k) lo a)"
  by (simp add: numeral_eq_Suc)

lemma expo_search_1:
  "expo_search 1 lo a = (if pow2 (lo + 1) \<le> a then lo + 1 else lo)"
  by simp

lemmas fl_eval = fl_def expo_def pow2_def round_even_def expo_search_numeral expo_search_1

lemmas f64_ops =
  fadd_def fsub_def fneg_def fmul_def fdiv_def fle_def fge_def is_neg_def inf_of_def
  np_clip_f64_def

lemma sim_step_f64_stages:
  assumes "fsub (v_ref_at_f64 r t) (v_current_f s) = e"
    and "pid_controller_f64 c s e = Inr (u, s1)"
    and "engine_model_f64 c s1 u = (g, s2)"
    and "vehicle_model_f64 c s2 g (dist_force_at_f64 d t) = (v, s3)"
  shows "sim_step_f64 c s r d t =
     Inr (\<lparr>row_speed_f = v, row_throttle_f = u, row_error_f = e, row_force_f = g,
           row_reference_f = v_ref_at_f64 r t\<rparr>, s3)"
  using assms by (simp add: sim_step_f64_def Let_def)

lemma reset_state_init:
  "reset_states_f64 state_init =
     \<lparr>v_current_f = Fin 0, throttle_f = Fin 0, error_integral_f = Fin 0,
      error_prev_f = Fin 0, engine_state_f = Fin 0, vehicle_state_f = Fin 0\<rparr>"
  by (simp add: reset_states_f64_def state_init_def)

lemma upt_0_2: "[0..<2] = [0, 1]"
  by (simp add: numeral_2_eq_2)

lemma upt_0_4: "[0..<4] = [0, 1, 2, 3]"
  by (simp add: eval_nat_numeral)

lemma reset_states_f64_init: "reset_states_f64 state_init = state_init"
  by (simp add: reset_states_f64_def state_init_def)

lemma simulate_f64_eval:
  assumes "arange_length (T_sim c) (dt c) = Inr n"
    and "grid_f64 c n = ts"
    and "run_steps c (reset_states_f64 s) (ref_of_f64 c r) d ts = Inr (rws, s')"
  shows "simulate_f64 c s r d = Inr (results_of ts rws, s')"
  using simulate_f64_runs [OF assms(1), of s r d] assms(2,3) by auto







lemma fdiv_Fin: "v \<noteq> 0 \<Longrightarrow> fdiv (Fin u) (Fin v) = fl (u / v)"
  by (simp add: fdiv_def)

lemma arange_length_positive:
  assumes "0 < step" and "0 < stop" and "fdiv (Fin stop) (Fin step) = Fin q"
    and "\<lceil>q\<rceil> \<le> 2 ^ 63"
  shows "0 \<le> q \<and> arange_length stop step = Inr (if q = 0 then 1 else nat \<lceil>q\<rceil>)"
proof -
  from assms(1,2) have pos: "0 \<le> stop / step" by simp
  from fl_nonneg [OF this] assms(1,3) have q: "0 \<le> q" by (auto simp: fdiv_Fin)
  then have "- (2 ^ 63) \<le> \<lceil>q\<rceil>"
    by (smt (verit) ceiling_mono ceiling_zero zero_le_power)
  moreover from pos have "\<not> stop / step < 0" by simp
  ultimately show ?thesis using q assms by (simp add: arange_length_def)
qed

lemma arange_length_overflow:
  assumes "step \<noteq> 0"
    and "fdiv (Fin stop) (Fin step) = PInf \<or>
      (\<exists>q. fdiv (Fin stop) (Fin step) = Fin q \<and> 2 ^ 63 < \<lceil>q\<rceil>)"
  shows "arange_length stop step = Inl Overflow_Error"
proof -
  from assms(2) show ?thesis
  proof
    assume "fdiv (Fin stop) (Fin step) = PInf"
    with assms(1) show ?thesis by (simp add: arange_length_def)
  next
    assume "\<exists>q. fdiv (Fin stop) (Fin step) = Fin q \<and> 2 ^ 63 < \<lceil>q\<rceil>"
    then obtain q where q: "fdiv (Fin stop) (Fin step) = Fin q" "2 ^ 63 < \<lceil>q\<rceil>" by blast
    then have "q \<noteq> 0" by auto
    with q assms(1) show ?thesis by (simp add: arange_length_def)
  qed
qed

lemma arange_length_nonpositive:
  assumes "step \<noteq> 0" and "stop / step \<le> 0"
  shows "arange_length stop step = Inr 0 \<or> arange_length stop step = Inl Overflow_Error"
proof -
  from fl_nonpos [OF assms(2)] show ?thesis
  proof
    assume "fl (stop / step) = NInf"
    with assms(1) show ?thesis by (simp add: arange_length_def fdiv_Fin)
  next
    assume "\<exists>q. fl (stop / step) = Fin q \<and> q \<le> 0"
    then obtain q where q: "fl (stop / step) = Fin q" "q \<le> 0" by blast
    then have c: "\<lceil>q\<rceil> \<le> 0" by (simp add: ceiling_le_zero)
    show ?thesis
    proof (cases "q = 0 \<and> stop \<noteq> 0")
      case True
      with assms have "stop / step < 0" by (simp add: less_le)
      with True q assms(1) show ?thesis by (simp add: arange_length_def fdiv_Fin)
    next
      case False
      with q c assms(1) show ?thesis by (auto simp: arange_length_def fdiv_Fin)
    qed
  qed
qed

lemma grid_f64_nth:
  "i < n \<Longrightarrow> grid_f64 c n ! i = fadd (Fin 0) (fmul (fl (real i)) (Fin (dt c)))"
  by (simp add: grid_f64_def)

lemma ceiling_floor_nat:
  assumes "0 \<le> (q::real)"
  shows "(q \<in> \<int> \<longrightarrow> nat \<lceil>q\<rceil> = nat \<lfloor>q\<rfloor>) \<and> (q \<notin> \<int> \<longrightarrow> nat \<lceil>q\<rceil> = nat \<lfloor>q\<rfloor> + 1)"
proof (intro conjI impI)
  assume "q \<in> \<int>"
  then show "nat \<lceil>q\<rceil> = nat \<lfloor>q\<rfloor>" by (auto elim: Ints_cases)
next
  assume "q \<notin> \<int>"
  then have "q \<noteq> of_int \<lfloor>q\<rfloor>" by (metis Ints_of_int)
  then have "\<lceil>q\<rceil> = \<lfloor>q\<rfloor> + 1" by (simp add: ceiling_altdef)
  moreover from assms have "0 \<le> \<lfloor>q\<rfloor>" by simp
  ultimately show "nat \<lceil>q\<rceil> = nat \<lfloor>q\<rfloor> + 1" by (simp add: nat_add_distrib)
qed


lemma params_overflow:
  "dt cruise_overflow = 1 / 2" "T_sim cruise_overflow = 1"
  "m cruise_overflow = 1000" "b cruise_overflow = 50"
  "Kv cruise_overflow = 500" "tau_engine cruise_overflow = 1 / 2"
  "v_desired cruise_overflow = 29" "Kp cruise_overflow = 2 ^ 1023"
  "Ki cruise_overflow = 40" "Kd cruise_overflow = - (2 ^ 1023)"
  "throttle_max cruise_overflow = 1" "throttle_min cruise_overflow = 0"
  by (simp_all add: cruise_overflow_def cruise_small_def cruise_init_def reset_states_def)

lemma params_no_lag:
  "dt cruise_no_lag = 1 / 2" "T_sim cruise_no_lag = 1"
  "m cruise_no_lag = 1000" "b cruise_no_lag = 50"
  "Kv cruise_no_lag = 500" "tau_engine cruise_no_lag = 0"
  "v_desired cruise_no_lag = 29" "Kp cruise_no_lag = 800"
  "Ki cruise_no_lag = 40" "Kd cruise_no_lag = 40"
  "throttle_max cruise_no_lag = 1" "throttle_min cruise_no_lag = 0"
  by (simp_all add: cruise_no_lag_def cruise_small_def cruise_init_def reset_states_def)

lemma params_inverted:
  "dt cruise_inverted = 1 / 2" "T_sim cruise_inverted = 1"
  "m cruise_inverted = 1000" "b cruise_inverted = 50"
  "Kv cruise_inverted = 500" "tau_engine cruise_inverted = 1 / 2"
  "v_desired cruise_inverted = 29" "Kp cruise_inverted = 800"
  "Ki cruise_inverted = 40" "Kd cruise_inverted = 40"
  "throttle_max cruise_inverted = 0" "throttle_min cruise_inverted = 1"
  by (simp_all add: cruise_inverted_def cruise_small_def cruise_init_def reset_states_def)

lemma params_init:
  "dt params_init = 5764607523034235 / 576460752303423488" "T_sim params_init = 100"
  "m params_init = 1000" "b params_init = 50"
  "Kv params_init = 500" "tau_engine params_init = 1 / 2"
  "v_desired params_init = 29" "Kp params_init = 800"
  "Ki params_init = 40" "Kd params_init = 40"
  "throttle_max params_init = 1" "throttle_min params_init = 0"
  by (simp_all add: params_init_def cruise_init_def reset_states_def)































lemma no_lag_error_0:
  "fsub (v_ref_at_f64 (Constant_f64 29) (Fin 0)) (v_current_f \<lparr>v_current_f = Fin 0,
     throttle_f = Fin 0, error_integral_f = Fin 0, error_prev_f = Fin 0, engine_state_f = Fin 0,
     vehicle_state_f = Fin 0\<rparr>) = Fin 29"
  by (simp add: v_ref_at_f64_def f64_ops fl_eval cong: let_weak_cong)

lemma no_lag_pid_0:
  "pid_controller_f64 cruise_no_lag \<lparr>v_current_f = Fin 0, throttle_f = Fin 0,
     error_integral_f = Fin 0, error_prev_f = Fin 0, engine_state_f = Fin 0,
     vehicle_state_f = Fin 0\<rparr> (Fin 29) =
     Inr (Fin 1, \<lparr>v_current_f = Fin 0, throttle_f = Fin 0, error_integral_f = Fin 0,
        error_prev_f = Fin 29, engine_state_f = Fin 0, vehicle_state_f = Fin 0\<rparr>)"
  by (simp add: pid_controller_f64_def raw_signal_f64_def Let_def params_no_lag f64_ops fl_eval
     cong: let_weak_cong)

lemma no_lag_engine_0:
  "engine_model_f64 cruise_no_lag \<lparr>v_current_f = Fin 0, throttle_f = Fin 0,
     error_integral_f = Fin 0, error_prev_f = Fin 29, engine_state_f = Fin 0,
     vehicle_state_f = Fin 0\<rparr> (Fin 1) =
     (PInf, \<lparr>v_current_f = Fin 0, throttle_f = Fin 0, error_integral_f = Fin 0,
        error_prev_f = Fin 29, engine_state_f = PInf, vehicle_state_f = Fin 0\<rparr>)"
  by (simp add: engine_model_f64_def Let_def params_no_lag f64_ops fl_eval cong: let_weak_cong)

lemma no_lag_vehicle_0:
  "vehicle_model_f64 cruise_no_lag \<lparr>v_current_f = Fin 0, throttle_f = Fin 0,
     error_integral_f = Fin 0, error_prev_f = Fin 29, engine_state_f = PInf,
     vehicle_state_f = Fin 0\<rparr> (PInf) (dist_force_at_f64 None (Fin 0)) =
     (PInf, \<lparr>v_current_f = PInf, throttle_f = Fin 0, error_integral_f = Fin 0,
        error_prev_f = Fin 29, engine_state_f = PInf, vehicle_state_f = Fin 0\<rparr>)"
  by (simp add: vehicle_model_f64_def dist_force_at_f64_def Let_def params_no_lag f64_ops fl_eval
     cong: let_weak_cong)

lemma no_lag_step_0:
  "sim_step_f64 cruise_no_lag \<lparr>v_current_f = Fin 0, throttle_f = Fin 0,
     error_integral_f = Fin 0, error_prev_f = Fin 0, engine_state_f = Fin 0,
     vehicle_state_f = Fin 0\<rparr> (Constant_f64 29) None (Fin 0) =
     Inr (\<lparr>row_speed_f = PInf, row_throttle_f = Fin 1, row_error_f = Fin 29,
        row_force_f = PInf, row_reference_f = Fin 29\<rparr>,
          \<lparr>v_current_f = PInf, throttle_f = Fin 0, error_integral_f = Fin 0,
             error_prev_f = Fin 29, engine_state_f = PInf, vehicle_state_f = Fin 0\<rparr>)"
  using sim_step_f64_stages [OF no_lag_error_0 no_lag_pid_0 no_lag_engine_0 no_lag_vehicle_0]
  by (simp add: v_ref_at_f64_def)

lemma no_lag_error_1:
  "fsub (v_ref_at_f64 (Constant_f64 29) (Fin (1 / 2))) (v_current_f \<lparr>v_current_f = PInf,
     throttle_f = Fin 0, error_integral_f = Fin 0, error_prev_f = Fin 29, engine_state_f = PInf,
     vehicle_state_f = Fin 0\<rparr>) = NInf"
  by (simp add: v_ref_at_f64_def f64_ops fl_eval cong: let_weak_cong)

lemma no_lag_pid_1:
  "pid_controller_f64 cruise_no_lag \<lparr>v_current_f = PInf, throttle_f = Fin 0,
     error_integral_f = Fin 0, error_prev_f = Fin 29, engine_state_f = PInf,
     vehicle_state_f = Fin 0\<rparr> (NInf) =
     Inr (Fin 0, \<lparr>v_current_f = PInf, throttle_f = Fin 0, error_integral_f = NaN,
        error_prev_f = NInf, engine_state_f = PInf, vehicle_state_f = Fin 0\<rparr>)"
  by (simp add: pid_controller_f64_def raw_signal_f64_def Let_def params_no_lag f64_ops fl_eval
     cong: let_weak_cong)

lemma no_lag_engine_1:
  "engine_model_f64 cruise_no_lag \<lparr>v_current_f = PInf, throttle_f = Fin 0,
     error_integral_f = NaN, error_prev_f = NInf, engine_state_f = PInf,
     vehicle_state_f = Fin 0\<rparr> (Fin 0) =
     (NaN, \<lparr>v_current_f = PInf, throttle_f = Fin 0, error_integral_f = NaN,
        error_prev_f = NInf, engine_state_f = NaN, vehicle_state_f = Fin 0\<rparr>)"
  by (simp add: engine_model_f64_def Let_def params_no_lag f64_ops fl_eval cong: let_weak_cong)

lemma no_lag_vehicle_1:
  "vehicle_model_f64 cruise_no_lag \<lparr>v_current_f = PInf, throttle_f = Fin 0,
     error_integral_f = NaN, error_prev_f = NInf, engine_state_f = NaN,
     vehicle_state_f = Fin 0\<rparr> (NaN) (dist_force_at_f64 None (Fin (1 / 2))) =
     (NaN, \<lparr>v_current_f = NaN, throttle_f = Fin 0, error_integral_f = NaN,
        error_prev_f = NInf, engine_state_f = NaN, vehicle_state_f = Fin 0\<rparr>)"
  by (simp add: vehicle_model_f64_def dist_force_at_f64_def Let_def params_no_lag f64_ops fl_eval
     cong: let_weak_cong)

lemma no_lag_step_1:
  "sim_step_f64 cruise_no_lag \<lparr>v_current_f = PInf, throttle_f = Fin 0,
     error_integral_f = Fin 0, error_prev_f = Fin 29, engine_state_f = PInf,
     vehicle_state_f = Fin 0\<rparr> (Constant_f64 29) None (Fin (1 / 2)) =
     Inr (\<lparr>row_speed_f = NaN, row_throttle_f = Fin 0, row_error_f = NInf,
        row_force_f = NaN, row_reference_f = Fin 29\<rparr>,
          \<lparr>v_current_f = NaN, throttle_f = Fin 0, error_integral_f = NaN,
             error_prev_f = NInf, engine_state_f = NaN, vehicle_state_f = Fin 0\<rparr>)"
  using sim_step_f64_stages [OF no_lag_error_1 no_lag_pid_1 no_lag_engine_1 no_lag_vehicle_1]
  by (simp add: v_ref_at_f64_def)

lemma no_lag_run:
  "run_steps cruise_no_lag \<lparr>v_current_f = Fin 0, throttle_f = Fin 0,
     error_integral_f = Fin 0, error_prev_f = Fin 0, engine_state_f = Fin 0,
     vehicle_state_f = Fin 0\<rparr> (Constant_f64 29) None [Fin 0, Fin (1 / 2)] =
     Inr ([\<lparr>row_speed_f = PInf, row_throttle_f = Fin 1, row_error_f = Fin 29,
        row_force_f = PInf, row_reference_f = Fin 29\<rparr>,
           \<lparr>row_speed_f = NaN, row_throttle_f = Fin 0, row_error_f = NInf,
              row_force_f = NaN, row_reference_f = Fin 29\<rparr>],
          \<lparr>v_current_f = NaN, throttle_f = Fin 0, error_integral_f = NaN,
             error_prev_f = NInf, engine_state_f = NaN, vehicle_state_f = Fin 0\<rparr>)"
  by (simp only: run_steps.simps no_lag_step_0 no_lag_step_1 sum.case prod.case)

lemma arange_no_lag: "arange_length (T_sim cruise_no_lag) (dt cruise_no_lag) = Inr 2"
  by (simp add: arange_length_def params_no_lag fdiv_def fl_eval)

lemma grid_no_lag: "grid_f64 cruise_no_lag 2 = [Fin 0, Fin (1 / 2)]"
  by (simp add: grid_f64_def params_no_lag upt_0_2 fadd_def fmul_def fl_eval)

lemma ref_of_no_lag: "ref_of_f64 cruise_no_lag None = Constant_f64 29"
  by (simp add: ref_of_f64_def params_no_lag)

lemma no_lag_f64_eval:
  "simulate_f64 cruise_no_lag state_init None None =
     Inr (\<lparr>res_time_f = [Fin 0, Fin (1 / 2)], res_speed_f = [PInf, NaN], res_throttle_f =
        [Fin 1, Fin 0], res_error_f = [Fin 29, NInf], res_force_f = [PInf, NaN], res_reference_f =
        [Fin 29, Fin 29]\<rparr>,
          \<lparr>v_current_f = NaN, throttle_f = Fin 0, error_integral_f = NaN,
             error_prev_f = NInf, engine_state_f = NaN, vehicle_state_f = Fin 0\<rparr>)"
proof -
  have "run_steps cruise_no_lag (reset_states_f64 state_init) (ref_of_f64 cruise_no_lag None) None
     [Fin 0, Fin (1 / 2)] =
     Inr ([\<lparr>row_speed_f = PInf, row_throttle_f = Fin 1, row_error_f = Fin 29,
        row_force_f = PInf, row_reference_f = Fin 29\<rparr>,
           \<lparr>row_speed_f = NaN, row_throttle_f = Fin 0, row_error_f = NInf,
              row_force_f = NaN, row_reference_f = Fin 29\<rparr>],
          \<lparr>v_current_f = NaN, throttle_f = Fin 0, error_integral_f = NaN,
             error_prev_f = NInf, engine_state_f = NaN, vehicle_state_f = Fin 0\<rparr>)"
    by (simp only: reset_state_init ref_of_no_lag no_lag_run)
  from simulate_f64_eval [OF arange_no_lag grid_no_lag this] show ?thesis
    by (simp add: results_of_def)
qed

lemma inverted_error_0:
  "fsub (v_ref_at_f64 (Constant_f64 29) (Fin 0)) (v_current_f \<lparr>v_current_f = Fin 0,
     throttle_f = Fin 0, error_integral_f = Fin 0, error_prev_f = Fin 0, engine_state_f = Fin 0,
     vehicle_state_f = Fin 0\<rparr>) = Fin 29"
  by (simp add: v_ref_at_f64_def f64_ops fl_eval cong: let_weak_cong)

lemma inverted_pid_0:
  "pid_controller_f64 cruise_inverted \<lparr>v_current_f = Fin 0, throttle_f = Fin 0,
     error_integral_f = Fin 0, error_prev_f = Fin 0, engine_state_f = Fin 0,
     vehicle_state_f = Fin 0\<rparr> (Fin 29) =
     Inr (Fin 0, \<lparr>v_current_f = Fin 0, throttle_f = Fin 0, error_integral_f = Fin 0,
        error_prev_f = Fin 29, engine_state_f = Fin 0, vehicle_state_f = Fin 0\<rparr>)"
  by (simp add: pid_controller_f64_def raw_signal_f64_def Let_def params_inverted f64_ops fl_eval
     cong: let_weak_cong)

lemma inverted_engine_0:
  "engine_model_f64 cruise_inverted \<lparr>v_current_f = Fin 0, throttle_f = Fin 0,
     error_integral_f = Fin 0, error_prev_f = Fin 29, engine_state_f = Fin 0,
     vehicle_state_f = Fin 0\<rparr> (Fin 0) =
     (Fin 0, \<lparr>v_current_f = Fin 0, throttle_f = Fin 0, error_integral_f = Fin 0,
        error_prev_f = Fin 29, engine_state_f = Fin 0, vehicle_state_f = Fin 0\<rparr>)"
  by (simp add: engine_model_f64_def Let_def params_inverted f64_ops fl_eval cong: let_weak_cong)

lemma inverted_vehicle_0:
  "vehicle_model_f64 cruise_inverted \<lparr>v_current_f = Fin 0, throttle_f = Fin 0,
     error_integral_f = Fin 0, error_prev_f = Fin 29, engine_state_f = Fin 0,
     vehicle_state_f = Fin 0\<rparr> (Fin 0) (dist_force_at_f64 None (Fin 0)) =
     (Fin 0, \<lparr>v_current_f = Fin 0, throttle_f = Fin 0, error_integral_f = Fin 0,
        error_prev_f = Fin 29, engine_state_f = Fin 0, vehicle_state_f = Fin 0\<rparr>)"
  by (simp add: vehicle_model_f64_def dist_force_at_f64_def Let_def params_inverted f64_ops
     fl_eval cong: let_weak_cong)

lemma inverted_step_0:
  "sim_step_f64 cruise_inverted \<lparr>v_current_f = Fin 0, throttle_f = Fin 0,
     error_integral_f = Fin 0, error_prev_f = Fin 0, engine_state_f = Fin 0,
     vehicle_state_f = Fin 0\<rparr> (Constant_f64 29) None (Fin 0) =
     Inr (\<lparr>row_speed_f = Fin 0, row_throttle_f = Fin 0, row_error_f = Fin 29,
        row_force_f = Fin 0, row_reference_f = Fin 29\<rparr>,
          \<lparr>v_current_f = Fin 0, throttle_f = Fin 0, error_integral_f = Fin 0,
             error_prev_f = Fin 29, engine_state_f = Fin 0, vehicle_state_f = Fin 0\<rparr>)"
  using sim_step_f64_stages [OF inverted_error_0 inverted_pid_0 inverted_engine_0
     inverted_vehicle_0]
  by (simp add: v_ref_at_f64_def)

lemma inverted_error_1:
  "fsub (v_ref_at_f64 (Constant_f64 29) (Fin (1 / 2))) (v_current_f \<lparr>v_current_f = Fin 0,
     throttle_f = Fin 0, error_integral_f = Fin 0, error_prev_f = Fin 29, engine_state_f = Fin 0,
     vehicle_state_f = Fin 0\<rparr>) = Fin 29"
  by (simp add: v_ref_at_f64_def f64_ops fl_eval cong: let_weak_cong)

lemma inverted_pid_1:
  "pid_controller_f64 cruise_inverted \<lparr>v_current_f = Fin 0, throttle_f = Fin 0,
     error_integral_f = Fin 0, error_prev_f = Fin 29, engine_state_f = Fin 0,
     vehicle_state_f = Fin 0\<rparr> (Fin 29) =
     Inr (Fin 0, \<lparr>v_current_f = Fin 0, throttle_f = Fin 0, error_integral_f = Fin 0,
        error_prev_f = Fin 29, engine_state_f = Fin 0, vehicle_state_f = Fin 0\<rparr>)"
  by (simp add: pid_controller_f64_def raw_signal_f64_def Let_def params_inverted f64_ops fl_eval
     cong: let_weak_cong)

lemma inverted_engine_1:
  "engine_model_f64 cruise_inverted \<lparr>v_current_f = Fin 0, throttle_f = Fin 0,
     error_integral_f = Fin 0, error_prev_f = Fin 29, engine_state_f = Fin 0,
     vehicle_state_f = Fin 0\<rparr> (Fin 0) =
     (Fin 0, \<lparr>v_current_f = Fin 0, throttle_f = Fin 0, error_integral_f = Fin 0,
        error_prev_f = Fin 29, engine_state_f = Fin 0, vehicle_state_f = Fin 0\<rparr>)"
  by (simp add: engine_model_f64_def Let_def params_inverted f64_ops fl_eval cong: let_weak_cong)

lemma inverted_vehicle_1:
  "vehicle_model_f64 cruise_inverted \<lparr>v_current_f = Fin 0, throttle_f = Fin 0,
     error_integral_f = Fin 0, error_prev_f = Fin 29, engine_state_f = Fin 0,
     vehicle_state_f = Fin 0\<rparr> (Fin 0) (dist_force_at_f64 None (Fin (1 / 2))) =
     (Fin 0, \<lparr>v_current_f = Fin 0, throttle_f = Fin 0, error_integral_f = Fin 0,
        error_prev_f = Fin 29, engine_state_f = Fin 0, vehicle_state_f = Fin 0\<rparr>)"
  by (simp add: vehicle_model_f64_def dist_force_at_f64_def Let_def params_inverted f64_ops
     fl_eval cong: let_weak_cong)

lemma inverted_step_1:
  "sim_step_f64 cruise_inverted \<lparr>v_current_f = Fin 0, throttle_f = Fin 0,
     error_integral_f = Fin 0, error_prev_f = Fin 29, engine_state_f = Fin 0,
     vehicle_state_f = Fin 0\<rparr> (Constant_f64 29) None (Fin (1 / 2)) =
     Inr (\<lparr>row_speed_f = Fin 0, row_throttle_f = Fin 0, row_error_f = Fin 29,
        row_force_f = Fin 0, row_reference_f = Fin 29\<rparr>,
          \<lparr>v_current_f = Fin 0, throttle_f = Fin 0, error_integral_f = Fin 0,
             error_prev_f = Fin 29, engine_state_f = Fin 0, vehicle_state_f = Fin 0\<rparr>)"
  using sim_step_f64_stages [OF inverted_error_1 inverted_pid_1 inverted_engine_1
     inverted_vehicle_1]
  by (simp add: v_ref_at_f64_def)

lemma inverted_run:
  "run_steps cruise_inverted \<lparr>v_current_f = Fin 0, throttle_f = Fin 0,
     error_integral_f = Fin 0, error_prev_f = Fin 0, engine_state_f = Fin 0,
     vehicle_state_f = Fin 0\<rparr> (Constant_f64 29) None [Fin 0, Fin (1 / 2)] =
     Inr ([\<lparr>row_speed_f = Fin 0, row_throttle_f = Fin 0, row_error_f = Fin 29,
        row_force_f = Fin 0, row_reference_f = Fin 29\<rparr>,
           \<lparr>row_speed_f = Fin 0, row_throttle_f = Fin 0, row_error_f = Fin 29,
              row_force_f = Fin 0, row_reference_f = Fin 29\<rparr>],
          \<lparr>v_current_f = Fin 0, throttle_f = Fin 0, error_integral_f = Fin 0,
             error_prev_f = Fin 29, engine_state_f = Fin 0, vehicle_state_f = Fin 0\<rparr>)"
  by (simp only: run_steps.simps inverted_step_0 inverted_step_1 sum.case prod.case)

lemma arange_inverted: "arange_length (T_sim cruise_inverted) (dt cruise_inverted) = Inr 2"
  by (simp add: arange_length_def params_inverted fdiv_def fl_eval)

lemma grid_inverted: "grid_f64 cruise_inverted 2 = [Fin 0, Fin (1 / 2)]"
  by (simp add: grid_f64_def params_inverted upt_0_2 fadd_def fmul_def fl_eval)

lemma ref_of_inverted: "ref_of_f64 cruise_inverted None = Constant_f64 29"
  by (simp add: ref_of_f64_def params_inverted)

lemma inverted_f64_eval:
  "simulate_f64 cruise_inverted state_init None None =
     Inr (\<lparr>res_time_f = [Fin 0, Fin (1 / 2)], res_speed_f = [Fin 0, Fin 0], res_throttle_f
        = [Fin 0, Fin 0], res_error_f = [Fin 29, Fin 29], res_force_f = [Fin 0, Fin 0],
        res_reference_f = [Fin 29, Fin 29]\<rparr>,
          \<lparr>v_current_f = Fin 0, throttle_f = Fin 0, error_integral_f = Fin 0,
             error_prev_f = Fin 29, engine_state_f = Fin 0, vehicle_state_f = Fin 0\<rparr>)"
proof -
  have "run_steps cruise_inverted (reset_states_f64 state_init) (ref_of_f64 cruise_inverted None)
     None [Fin 0, Fin (1 / 2)] =
     Inr ([\<lparr>row_speed_f = Fin 0, row_throttle_f = Fin 0, row_error_f = Fin 29,
        row_force_f = Fin 0, row_reference_f = Fin 29\<rparr>,
           \<lparr>row_speed_f = Fin 0, row_throttle_f = Fin 0, row_error_f = Fin 29,
              row_force_f = Fin 0, row_reference_f = Fin 29\<rparr>],
          \<lparr>v_current_f = Fin 0, throttle_f = Fin 0, error_integral_f = Fin 0,
             error_prev_f = Fin 29, engine_state_f = Fin 0, vehicle_state_f = Fin 0\<rparr>)"
    by (simp only: reset_state_init ref_of_inverted inverted_run)
  from simulate_f64_eval [OF arange_inverted grid_inverted this] show ?thesis
    by (simp add: results_of_def)
qed






lemma pid_overflow_raw:
  "raw_signal_f64 cruise_overflow \<lparr>v_current_f = Fin 0, throttle_f = Fin 0,
     error_integral_f = Fin 0, error_prev_f = Fin 0, engine_state_f = Fin 0,
     vehicle_state_f = Fin 0\<rparr> (Fin 29) = NaN"
  by (simp add: raw_signal_f64_def Let_def params_overflow f64_ops fl_eval cong: let_weak_cong)

lemma params_uneven_f64:
  "dt cruise_uneven_f64 = 5404319552844595 / 2 ^ 54" "T_sim cruise_uneven_f64 = 1"
  by (simp_all add: cruise_uneven_f64_def cruise_init_def reset_states_def)

lemma quotient_uneven_f64:
  "fdiv (Fin (T_sim cruise_uneven_f64)) (Fin (dt cruise_uneven_f64)) =
     Fin (7505999378950827 / 2251799813685248)"
  by (simp add: params_uneven_f64 fdiv_def fl_eval)

lemma grid_uneven_f64:
  "grid_f64 cruise_uneven_f64 4 =
     [Fin 0, Fin (5404319552844595 / 18014398509481984),
      Fin (5404319552844595 / 9007199254740992), Fin (2026619832316723 / 2251799813685248)]"
  by (simp add: grid_f64_def params_uneven_f64 upt_0_4 fadd_def fmul_def fl_eval)

lemma params_tenth:
  "dt cruise_tenth = 3602879701896397 / 2 ^ 55" "T_sim cruise_tenth = 2476979795053773 / 2 ^ 51"
  by (simp_all add: cruise_tenth_def cruise_init_def reset_states_def)

lemma quotient_tenth:
  "fdiv (Fin (T_sim cruise_tenth)) (Fin (dt cruise_tenth)) = Fin 11"
  by (simp add: params_tenth fdiv_def fl_eval)


lemma tenth_rollback:
  "add_then_subtract (Fin (3602879701896397 / 2 ^ 55)) (fmul (Fin 29) (Fin (dt params_init))) =
     Fin (1801439850948199 / 18014398509481984)"
  by (simp add: add_then_subtract_def params_init f64_ops fl_eval)







text \<open>
  Claim C4 (record count), as the code has it. Let \<open>dt > 0\<close> and \<open>T_sim > 0\<close>, and let \<open>q\<close>
  be the quotient \<open>T_sim / dt\<close> as Python computes it, a double. When \<open>q\<close> is finite with
  ceiling at most \<open>2 ^ 63\<close>, \<open>q\<close> is not negative and the run returns exactly \<open>n\<close> records,
  where \<open>n\<close> is the ceiling of \<open>q\<close>, or \<open>1\<close> when the quotient has underflowed to zero:
  every log has length \<open>n\<close>, the time at index \<open>i\<close> is the double \<open>0 + i * dt\<close>, and the
  rows are those of the \<open>n\<close> steps taken one after the other in increasing order of \<open>i\<close>
  from the reset state. The count is \<open>floor(q)\<close> exactly when \<open>q\<close> is a whole number other
  than zero, and \<open>floor(q) + 1\<close> otherwise. When \<open>q\<close> is infinite or its ceiling exceeds
  \<open>2 ^ 63\<close>, \<open>np.arange\<close> raises \<open>OverflowError\<close> and the state is left as it was.
\<close>

theorem simulate_f64_record_count:
  assumes "0 < dt c" and "0 < T_sim c"
  shows "(\<forall>q. fdiv (Fin (T_sim c)) (Fin (dt c)) = Fin q \<and> \<lceil>q\<rceil> \<le> 2 ^ 63 \<longrightarrow>
            0 \<le> q \<and>
            (\<exists>n rws s'. n = (if q = 0 then 1 else nat \<lceil>q\<rceil>) \<and>
               simulate_f64 c s r d = Inr (results_of (grid_f64 c n) rws, s') \<and>
               run_steps c (reset_states_f64 s) (ref_of_f64 c r) d (grid_f64 c n) =
                 Inr (rws, s') \<and>
               length rws = n \<and> length (grid_f64 c n) = n \<and>
               (\<forall>i<n. grid_f64 c n ! i = fadd (Fin 0) (fmul (fl (real i)) (Fin (dt c)))) \<and>
               (q \<in> \<int> \<and> q \<noteq> 0 \<longrightarrow> n = nat \<lfloor>q\<rfloor>) \<and>
               (q \<notin> \<int> \<or> q = 0 \<longrightarrow> n = nat \<lfloor>q\<rfloor> + 1))) \<and>
         (fdiv (Fin (T_sim c)) (Fin (dt c)) = PInf \<or>
          (\<exists>q. fdiv (Fin (T_sim c)) (Fin (dt c)) = Fin q \<and> 2 ^ 63 < \<lceil>q\<rceil>) \<longrightarrow>
            simulate_f64 c s r d = Inl (Overflow_Error, s))"
proof (rule conjI)
  show "\<forall>q. fdiv (Fin (T_sim c)) (Fin (dt c)) = Fin q \<and> \<lceil>q\<rceil> \<le> 2 ^ 63 \<longrightarrow>
            0 \<le> q \<and>
            (\<exists>n rws s'. n = (if q = 0 then 1 else nat \<lceil>q\<rceil>) \<and>
               simulate_f64 c s r d = Inr (results_of (grid_f64 c n) rws, s') \<and>
               run_steps c (reset_states_f64 s) (ref_of_f64 c r) d (grid_f64 c n) =
                 Inr (rws, s') \<and>
               length rws = n \<and> length (grid_f64 c n) = n \<and>
               (\<forall>i<n. grid_f64 c n ! i = fadd (Fin 0) (fmul (fl (real i)) (Fin (dt c)))) \<and>
               (q \<in> \<int> \<and> q \<noteq> 0 \<longrightarrow> n = nat \<lfloor>q\<rfloor>) \<and>
               (q \<notin> \<int> \<or> q = 0 \<longrightarrow> n = nat \<lfloor>q\<rfloor> + 1))"
  proof (intro allI impI)
    fix q
    assume a: "fdiv (Fin (T_sim c)) (Fin (dt c)) = Fin q \<and> \<lceil>q\<rceil> \<le> 2 ^ 63"
    define n where "n = (if q = 0 then 1 else nat \<lceil>q\<rceil>)"
    from a arange_length_positive [OF assms, of q] have
      q: "0 \<le> q" and len: "arange_length (T_sim c) (dt c) = Inr n"
      by (simp_all add: n_def)
    from simulate_f64_runs [OF len, of s r d] obtain rws s' where
      run: "run_steps c (reset_states_f64 s) (ref_of_f64 c r) d (grid_f64 c n) = Inr (rws, s')"
      and rows: "length rws = n"
      and sim: "simulate_f64 c s r d = Inr (results_of (grid_f64 c n) rws, s')"
      by blast
    have times: "\<forall>i<n. grid_f64 c n ! i = fadd (Fin 0) (fmul (fl (real i)) (Fin (dt c)))"
      by (simp add: grid_f64_nth)
    from ceiling_floor_nat [OF q] have
      whole: "q \<in> \<int> \<and> q \<noteq> 0 \<longrightarrow> n = nat \<lfloor>q\<rfloor>" and
      part: "q \<notin> \<int> \<or> q = 0 \<longrightarrow> n = nat \<lfloor>q\<rfloor> + 1"
      by (auto simp: n_def)
    from q n_def sim run rows times whole part length_grid_f64 [of c n]
    show "0 \<le> q \<and>
            (\<exists>n rws s'. n = (if q = 0 then 1 else nat \<lceil>q\<rceil>) \<and>
               simulate_f64 c s r d = Inr (results_of (grid_f64 c n) rws, s') \<and>
               run_steps c (reset_states_f64 s) (ref_of_f64 c r) d (grid_f64 c n) =
                 Inr (rws, s') \<and>
               length rws = n \<and> length (grid_f64 c n) = n \<and>
               (\<forall>i<n. grid_f64 c n ! i = fadd (Fin 0) (fmul (fl (real i)) (Fin (dt c)))) \<and>
               (q \<in> \<int> \<and> q \<noteq> 0 \<longrightarrow> n = nat \<lfloor>q\<rfloor>) \<and>
               (q \<notin> \<int> \<or> q = 0 \<longrightarrow> n = nat \<lfloor>q\<rfloor> + 1))"
      by blast
  qed
next
  show "fdiv (Fin (T_sim c)) (Fin (dt c)) = PInf \<or>
          (\<exists>q. fdiv (Fin (T_sim c)) (Fin (dt c)) = Fin q \<and> 2 ^ 63 < \<lceil>q\<rceil>) \<longrightarrow>
            simulate_f64 c s r d = Inl (Overflow_Error, s)"
  proof
    assume "fdiv (Fin (T_sim c)) (Fin (dt c)) = PInf \<or>
          (\<exists>q. fdiv (Fin (T_sim c)) (Fin (dt c)) = Fin q \<and> 2 ^ 63 < \<lceil>q\<rceil>)"
    moreover from assms(1) have "dt c \<noteq> 0" by simp
    ultimately have "arange_length (T_sim c) (dt c) = Inl Overflow_Error"
      by (rule arange_length_overflow [rotated])
    then show "simulate_f64 c s r d = Inl (Overflow_Error, s)" by (rule simulate_f64_fails)
  qed
qed

theorem simulate_f64_record_count_witness:
  "0 < dt cruise_uneven_f64 \<and> 0 < T_sim cruise_uneven_f64 \<and>
   fdiv (Fin (T_sim cruise_uneven_f64)) (Fin (dt cruise_uneven_f64)) =
     Fin (7505999378950827 / 2251799813685248) \<and>
   \<lceil>7505999378950827 / 2251799813685248 :: real\<rceil> = 4 \<and>
   \<lfloor>7505999378950827 / 2251799813685248 :: real\<rfloor> = 3 \<and>
   res_time_f (fst (projr (simulate_f64 cruise_uneven_f64 state_init None None))) =
     [Fin 0, Fin (5404319552844595 / 18014398509481984),
      Fin (5404319552844595 / 9007199254740992), Fin (2026619832316723 / 2251799813685248)] \<and>
   length (res_speed_f (fst (projr (simulate_f64 cruise_uneven_f64 state_init None None)))) =
     4 \<and>
   0 < dt cruise_tenth \<and> 0 < T_sim cruise_tenth \<and>
   fdiv (Fin (T_sim cruise_tenth)) (Fin (dt cruise_tenth)) = Fin 11 \<and>
   length (res_time_f (fst (projr (simulate_f64 cruise_tenth state_init None None)))) = 11 \<and>
   length (res_speed_f (fst (projr (simulate_f64 cruise_tenth state_init None None)))) = 11"
proof -
  have pos: "0 < dt cruise_uneven_f64" "0 < T_sim cruise_uneven_f64"
    by (simp_all add: params_uneven_f64)
  have ceil: "\<lceil>7505999378950827 / 2251799813685248 :: real\<rceil> = 4"
    and floor: "\<lfloor>7505999378950827 / 2251799813685248 :: real\<rfloor> = 3"
    by simp_all
  from simulate_f64_record_count [OF pos, of state_init None None, THEN conjunct1, rule_format,
      of "7505999378950827 / 2251799813685248"] quotient_uneven_f64 ceil
  obtain rws s' where
    "simulate_f64 cruise_uneven_f64 state_init None None =
       Inr (results_of (grid_f64 cruise_uneven_f64 4) rws, s')" and "length rws = 4"
    by auto
  then have uneven:
    "res_time_f (fst (projr (simulate_f64 cruise_uneven_f64 state_init None None))) =
       [Fin 0, Fin (5404319552844595 / 18014398509481984),
        Fin (5404319552844595 / 9007199254740992), Fin (2026619832316723 / 2251799813685248)]"
    "length (res_speed_f (fst (projr (simulate_f64 cruise_uneven_f64 state_init None None)))) =
       4"
    by (simp_all add: results_of_def grid_uneven_f64)
  have pos': "0 < dt cruise_tenth" "0 < T_sim cruise_tenth"
    by (simp_all add: params_tenth)
  from simulate_f64_record_count [OF pos', of state_init None None, THEN conjunct1, rule_format,
      of 11] quotient_tenth
  obtain rws' s'' where
    "simulate_f64 cruise_tenth state_init None None =
       Inr (results_of (grid_f64 cruise_tenth 11) rws', s'')" and "length rws' = 11"
    by auto
  then have tenth:
    "length (res_time_f (fst (projr (simulate_f64 cruise_tenth state_init None None)))) = 11"
    "length (res_speed_f (fst (projr (simulate_f64 cruise_tenth state_init None None)))) = 11"
    by (simp_all add: results_of_def length_grid_f64)
  from pos quotient_uneven_f64 ceil floor uneven pos' quotient_tenth tenth show ?thesis
    by blast
qed

theorem record_count_floor_counterexample:
  "0 < dt cruise_uneven \<and> 0 < T_sim cruise_uneven \<and>
   simulate cruise_uneven None None =
     Inr (\<lparr>res_time = [0, 3 / 10, 3 / 5, 9 / 10],
           res_speed = [9 / 100, 4293 / 20000, 1407321 / 4000000, 394170237 / 800000000],
           res_throttle = [1, 1, 1, 1],
           res_error = [29, 2891 / 100, 575707 / 20000, 114592679 / 4000000],
           res_force = [300, 420, 468, 2436 / 5],
           res_reference = [29, 29, 29, 29]\<rparr>,
          cruise_uneven\<lparr>v_current := 394170237 / 800000000,
            error_prev := 114592679 / 4000000, engine_state := 2436 / 5\<rparr>) \<and>
   \<lfloor>T_sim cruise_uneven / dt cruise_uneven\<rfloor> = 3 \<and>
   length (res_time (fst (projr (simulate cruise_uneven None None)))) \<noteq>
     nat \<lfloor>T_sim cruise_uneven / dt cruise_uneven\<rfloor>"
  using uneven_eval uneven_floor
  by (simp add: cruise_uneven_def cruise_init_def reset_states_def)

text \<open>
  Claim C5 (configuration errors), as the code has it. \<open>simulate\<close> checks no parameter and
  knows no configuration error. With \<open>dt = 0\<close> the call fails in \<open>np.arange\<close> with
  \<open>ZeroDivisionError\<close>, before \<open>reset_states\<close>, and the state is left as it was; so it is
  for every failure of \<open>np.arange\<close>. Whenever \<open>np.arange\<close> returns a grid of \<open>n\<close> points,
  whatever \<open>m\<close>, \<open>tau_engine\<close> (zero included: the divisions give infinities and NaN), the
  throttle limits and \<open>T_sim\<close>, the run resets the state, takes the \<open>n\<close> steps one after
  the other and returns their \<open>n\<close> rows with the state the last step left. With \<open>dt\<close> not
  zero and \<open>T_sim / dt \<le> 0\<close> no step is taken: the run returns empty logs and the reset
  state, or \<open>np.arange\<close> raises \<open>OverflowError\<close>.
\<close>

theorem simulate_f64_no_validation:
  "(dt c = 0 \<longrightarrow> simulate_f64 c s r d = Inl (ZeroDivision_Error, s)) \<and>
   (\<forall>x. arange_length (T_sim c) (dt c) = Inl x \<longrightarrow> simulate_f64 c s r d = Inl (x, s)) \<and>
   (\<forall>n. arange_length (T_sim c) (dt c) = Inr n \<longrightarrow>
      (\<exists>rws s'. run_steps c (reset_states_f64 s) (ref_of_f64 c r) d (grid_f64 c n) =
           Inr (rws, s') \<and>
         length rws = n \<and>
         simulate_f64 c s r d = Inr (results_of (grid_f64 c n) rws, s'))) \<and>
   (dt c \<noteq> 0 \<and> T_sim c / dt c \<le> 0 \<longrightarrow>
      simulate_f64 c s r d = Inr (results_of [] [], reset_states_f64 s) \<or>
      simulate_f64 c s r d = Inl (Overflow_Error, s))"
proof (intro conjI allI impI)
  assume "dt c = 0"
  then have "arange_length (T_sim c) (dt c) = Inl ZeroDivision_Error"
    by (simp add: arange_length_def)
  then show "simulate_f64 c s r d = Inl (ZeroDivision_Error, s)" by (rule simulate_f64_fails)
next
  fix x
  assume "arange_length (T_sim c) (dt c) = Inl x"
  then show "simulate_f64 c s r d = Inl (x, s)" by (rule simulate_f64_fails)
next
  fix n
  assume "arange_length (T_sim c) (dt c) = Inr n"
  then show "\<exists>rws s'. run_steps c (reset_states_f64 s) (ref_of_f64 c r) d (grid_f64 c n) =
           Inr (rws, s') \<and>
         length rws = n \<and>
         simulate_f64 c s r d = Inr (results_of (grid_f64 c n) rws, s')"
    by (rule simulate_f64_runs)
next
  assume "dt c \<noteq> 0 \<and> T_sim c / dt c \<le> 0"
  then have "arange_length (T_sim c) (dt c) = Inr 0 \<or>
      arange_length (T_sim c) (dt c) = Inl Overflow_Error"
    by (simp add: arange_length_nonpositive)
  then show "simulate_f64 c s r d = Inr (results_of [] [], reset_states_f64 s) \<or>
      simulate_f64 c s r d = Inl (Overflow_Error, s)"
  proof
    assume "arange_length (T_sim c) (dt c) = Inr 0"
    from simulate_f64_eval [OF this, of "[]" s r d "[]" "reset_states_f64 s"]
    show ?thesis by (simp add: grid_f64_def)
  next
    assume "arange_length (T_sim c) (dt c) = Inl Overflow_Error"
    from simulate_f64_fails [OF this] show ?thesis by simp
  qed
qed

theorem simulate_f64_no_validation_witness:
  "dt (params_init\<lparr>dt := 0\<rparr>) = 0 \<and>
   simulate_f64 (params_init\<lparr>dt := 0\<rparr>) (state_init\<lparr>v_current_f := Fin 3\<rparr>) None None =
     Inl (ZeroDivision_Error, state_init\<lparr>v_current_f := Fin 3\<rparr>) \<and>
   throttle_max cruise_inverted \<le> throttle_min cruise_inverted \<and>
   arange_length (T_sim cruise_inverted) (dt cruise_inverted) = Inr 2 \<and>
   simulate_f64 cruise_inverted state_init None None =
     Inr (\<lparr>res_time_f = [Fin 0, Fin (1 / 2)], res_speed_f = [Fin 0, Fin 0],
           res_throttle_f = [Fin 0, Fin 0], res_error_f = [Fin 29, Fin 29],
           res_force_f = [Fin 0, Fin 0], res_reference_f = [Fin 29, Fin 29]\<rparr>,
          state_init\<lparr>error_prev_f := Fin 29\<rparr>) \<and>
   tau_engine cruise_no_lag = 0 \<and>
   arange_length (T_sim cruise_no_lag) (dt cruise_no_lag) = Inr 2 \<and>
   simulate_f64 cruise_no_lag state_init None None =
     Inr (\<lparr>res_time_f = [Fin 0, Fin (1 / 2)], res_speed_f = [PInf, NaN],
           res_throttle_f = [Fin 1, Fin 0], res_error_f = [Fin 29, NInf],
           res_force_f = [PInf, NaN], res_reference_f = [Fin 29, Fin 29]\<rparr>,
          state_init\<lparr>v_current_f := NaN, error_integral_f := NaN, error_prev_f := NInf,
            engine_state_f := NaN\<rparr>) \<and>
   dt (params_init\<lparr>T_sim := - 1\<rparr>) \<noteq> 0 \<and>
   T_sim (params_init\<lparr>T_sim := - 1\<rparr>) / dt (params_init\<lparr>T_sim := - 1\<rparr>) \<le> 0 \<and>
   simulate_f64 (params_init\<lparr>T_sim := - 1\<rparr>) (state_init\<lparr>v_current_f := Fin 3\<rparr>) None None =
     Inr (\<lparr>res_time_f = [], res_speed_f = [], res_throttle_f = [], res_error_f = [],
           res_force_f = [], res_reference_f = []\<rparr>, state_init)"
proof -
  let ?s = "state_init\<lparr>v_current_f := Fin 3\<rparr>"
  have zero: "dt (params_init\<lparr>dt := 0\<rparr>) = 0" by simp
  from simulate_f64_no_validation [of "params_init\<lparr>dt := 0\<rparr>" ?s None None] zero
  have fails: "simulate_f64 (params_init\<lparr>dt := 0\<rparr>) ?s None None =
      Inl (ZeroDivision_Error, ?s)"
    by blast
  have inv: "throttle_max cruise_inverted \<le> throttle_min cruise_inverted"
    by (simp add: params_inverted)
  from simulate_f64_no_validation [of cruise_inverted state_init None None] arange_inverted
  obtain rws s' where
    "run_steps cruise_inverted (reset_states_f64 state_init) (ref_of_f64 cruise_inverted None)
       None (grid_f64 cruise_inverted 2) = Inr (rws, s')" and
    "simulate_f64 cruise_inverted state_init None None =
       Inr (results_of (grid_f64 cruise_inverted 2) rws, s')"
    by blast
  then have
    "run_steps cruise_inverted
       \<lparr>v_current_f = Fin 0, throttle_f = Fin 0, error_integral_f = Fin 0,
        error_prev_f = Fin 0, engine_state_f = Fin 0, vehicle_state_f = Fin 0\<rparr>
       (Constant_f64 29) None [Fin 0, Fin (1 / 2)] = Inr (rws, s')" and
    "simulate_f64 cruise_inverted state_init None None =
       Inr (results_of [Fin 0, Fin (1 / 2)] rws, s')"
    by (simp_all only: reset_state_init ref_of_inverted grid_inverted)
  with inverted_run have inverted:
    "simulate_f64 cruise_inverted state_init None None =
     Inr (\<lparr>res_time_f = [Fin 0, Fin (1 / 2)], res_speed_f = [Fin 0, Fin 0],
           res_throttle_f = [Fin 0, Fin 0], res_error_f = [Fin 29, Fin 29],
           res_force_f = [Fin 0, Fin 0], res_reference_f = [Fin 29, Fin 29]\<rparr>,
          state_init\<lparr>error_prev_f := Fin 29\<rparr>)"
    by (simp add: results_of_def state_init_def del: run_steps.simps)
  have lag: "tau_engine cruise_no_lag = 0" by (simp add: params_no_lag)
  have no_lag:
    "simulate_f64 cruise_no_lag state_init None None =
     Inr (\<lparr>res_time_f = [Fin 0, Fin (1 / 2)], res_speed_f = [PInf, NaN],
           res_throttle_f = [Fin 1, Fin 0], res_error_f = [Fin 29, NInf],
           res_force_f = [PInf, NaN], res_reference_f = [Fin 29, Fin 29]\<rparr>,
          state_init\<lparr>v_current_f := NaN, error_integral_f := NaN, error_prev_f := NInf,
            engine_state_f := NaN\<rparr>)"
    using no_lag_f64_eval by (simp add: state_init_def)
  have neg: "dt (params_init\<lparr>T_sim := - 1\<rparr>) \<noteq> 0"
    "T_sim (params_init\<lparr>T_sim := - 1\<rparr>) / dt (params_init\<lparr>T_sim := - 1\<rparr>) \<le> 0"
    by (simp_all add: params_init)
  have "arange_length (T_sim (params_init\<lparr>T_sim := - 1\<rparr>))
      (dt (params_init\<lparr>T_sim := - 1\<rparr>)) = Inr 0"
    by (simp add: arange_length_def params_init fdiv_def fl_eval)
  with simulate_f64_no_validation [of "params_init\<lparr>T_sim := - 1\<rparr>" ?s None None]
  obtain rws' s'' where
    "run_steps (params_init\<lparr>T_sim := - 1\<rparr>) (reset_states_f64 ?s)
       (ref_of_f64 (params_init\<lparr>T_sim := - 1\<rparr>) None) None
       (grid_f64 (params_init\<lparr>T_sim := - 1\<rparr>) 0) = Inr (rws', s'')" and
    "simulate_f64 (params_init\<lparr>T_sim := - 1\<rparr>) ?s None None =
       Inr (results_of (grid_f64 (params_init\<lparr>T_sim := - 1\<rparr>) 0) rws', s'')"
    by blast
  then have empty:
    "simulate_f64 (params_init\<lparr>T_sim := - 1\<rparr>) ?s None None =
     Inr (\<lparr>res_time_f = [], res_speed_f = [], res_throttle_f = [], res_error_f = [],
           res_force_f = [], res_reference_f = []\<rparr>, state_init)"
    by (auto simp: grid_f64_def results_of_def reset_states_f64_def state_init_def)
  from zero fails inv arange_inverted inverted lag arange_no_lag no_lag neg empty
  show ?thesis by blast
qed

theorem configuration_error_counterexample:
  "throttle_min cruise_inverted \<ge> throttle_max cruise_inverted \<and>
   simulate cruise_inverted None None =
     Inr (\<lparr>res_time = [0, 1 / 2], res_speed = [0, 0], res_throttle = [0, 0],
           res_error = [29, 29], res_force = [0, 0], res_reference = [29, 29]\<rparr>,
          cruise_inverted\<lparr>error_prev := 29\<rparr>) \<and>
   cruise_inverted\<lparr>error_prev := 29\<rparr> \<noteq> cruise_inverted"
proof -
  have "error_prev (cruise_inverted\<lparr>error_prev := 29\<rparr>) \<noteq> error_prev cruise_inverted"
    by (simp add: cruise_inverted_def cruise_small_def cruise_init_def reset_states_def)
  then have "cruise_inverted\<lparr>error_prev := 29\<rparr> \<noteq> cruise_inverted" by metis
  with inverted_eval show ?thesis
    by (simp add: cruise_inverted_def cruise_small_def cruise_init_def reset_states_def)
qed

end
